theory Spec2Isabelle
  imports Complex_Main
begin

section \<open>Configuration\<close>

text \<open>
  The stack reads its settings from a \<open>Configuration\<close> object. The fields used by the
  code under study are kept; the window size is a JavaScript number, modelled as a
  rational (the non-numbers NaN and Infinity are left out of the model).
\<close>

record Configuration =
  deploymentAlias :: string
  sourceDynamoDbTableName :: string
  dataExportBucketPrefix :: string
  dataExportBucketOwnerAccountId :: string
  incrementalExportWindowSizeInMinutes :: rat

section \<open>The steps and conditions of the export workflow\<close>

text \<open>
  \<open>deployStepFunction\<close> wires the steps held by a \<open>NodeBuilder\<close> (\<open>nb\<close>) with the
  conditions held by a \<open>ConditionBuilder\<close> (\<open>cb\<close>). Each step it mentions is a
  constructor of \<open>node\<close>, each condition a constructor of \<open>cond\<close>, under the name the
  source uses.
\<close>

datatype node =
    nb_notifyOnIncrementalExport
  | nb_notifyOnTaskFailed
  | nb_didIncrementalExportCompleteSuccessfully
  | nb_incrementalExportFailed
  | nb_incrementalExportSucceeded
  | nb_setWorkflowStateParameterToPitrGap
  | nb_notifyOnIncrementalExportStartTimeOutsidePitrWindow
  | nb_incrementalExportStartTimeOutsidePitrWindowFail
  | nb_getNextIncrementalExportTimeLambdaInvoke
  | nb_checkIncrementalExportNeeded
  | nb_incrementalExportNotNeeded
  | nb_isEarliestRestoreDateTimeValidChoice
  | nb_executeIncrementalExport
  | nb_setLastIncrementalExportTimeParameter
  | nb_describeIncrementalExport
  | nb_incrementalExportCompletedState
  | nb_incrementalExportParameterTrue
  | nb_incrementalExportParameterFalse
  | nb_waitForIncrementalExport
  | nb_setWorkflowInitiatedParameter
  | nb_notifyOnFullExport
  | nb_didWorkflowInitiateSuccessfully
  | nb_fullExportFailed
  | nb_fullExportSucceeded
  | nb_taskFailedNode
  | nb_executeFullExport
  | nb_setFullExportTimeParameter
  | nb_setWorkflowActionParameterToRun
  | nb_setWorkflowStateParameterToNormal
  | nb_setEmptyWorkflowInitiatedParameter
  | nb_deleteLastIncrementalExportTimeParameter
  | nb_describeFullExport
  | nb_fullExportCompletedState
  | nb_workflowInitializedParameterTrue
  | nb_workflowInitializedParameterFalse
  | nb_waitForFullExport
  | nb_getParametersTask
  | nb_cleanParametersPassState
  | nb_checkWorkflowAction
  | nb_workflowPaused
  | nb_ensureTableExistsTask
  | nb_describeContinuousBackupsAwsServiceTask
  | nb_pitrEnabledChoice
  | nb_initializeWorkflowState
  | nb_notifyOnFullExportRunning
  | nb_fullExportStillRunning
  | nb_notifyOnPitrGap
  | nb_pitrGapFound
  | nb_isLastIncrementalExportParameterValid
  | nb_useLastIncrementalExportTimeParameterValue
  | nb_useFullExportTimeParameterValue
  | nb_notifyOnPitrDisabled
  | nb_pitrDisabledFail

datatype cond =
    cb_incrementalExportStateIsFalse
  | cb_nextIncrementalExportEndTimeIsPastCurrentTime
  | cb_earliestRestoreDateTimeIsGreaterThanExportStartTime
  | cb_incrementalExportCompleted
  | cb_incrementalExportFailed
  | cb_workflowInitializedParameterOutputFalse
  | cb_fullExportCompleted
  | cb_fullExportFailed
  | cb_isWorkflowPaused
  | cb_pitrIsEnabled
  | cb_fullExportStillRunning
  | cb_resetWithFullExportAgain
  | cb_pitrGapWorkflowState
  | cb_executeFullExport
  | cb_lastIncrementalExportTimeIsValid

definition all_nodes :: "node list" where
  "all_nodes =
    [nb_notifyOnIncrementalExport, nb_notifyOnTaskFailed, nb_didIncrementalExportCompleteSuccessfully,
     nb_incrementalExportFailed, nb_incrementalExportSucceeded, nb_setWorkflowStateParameterToPitrGap,
     nb_notifyOnIncrementalExportStartTimeOutsidePitrWindow, nb_incrementalExportStartTimeOutsidePitrWindowFail,
     nb_getNextIncrementalExportTimeLambdaInvoke, nb_checkIncrementalExportNeeded, nb_incrementalExportNotNeeded,
     nb_isEarliestRestoreDateTimeValidChoice, nb_executeIncrementalExport, nb_setLastIncrementalExportTimeParameter,
     nb_describeIncrementalExport, nb_incrementalExportCompletedState, nb_incrementalExportParameterTrue,
     nb_incrementalExportParameterFalse, nb_waitForIncrementalExport, nb_setWorkflowInitiatedParameter,
     nb_notifyOnFullExport, nb_didWorkflowInitiateSuccessfully, nb_fullExportFailed, nb_fullExportSucceeded,
     nb_taskFailedNode, nb_executeFullExport, nb_setFullExportTimeParameter, nb_setWorkflowActionParameterToRun,
     nb_setWorkflowStateParameterToNormal, nb_setEmptyWorkflowInitiatedParameter,
     nb_deleteLastIncrementalExportTimeParameter, nb_describeFullExport, nb_fullExportCompletedState,
     nb_workflowInitializedParameterTrue, nb_workflowInitializedParameterFalse, nb_waitForFullExport,
     nb_getParametersTask, nb_cleanParametersPassState, nb_checkWorkflowAction, nb_workflowPaused,
     nb_ensureTableExistsTask, nb_describeContinuousBackupsAwsServiceTask, nb_pitrEnabledChoice,
     nb_initializeWorkflowState, nb_notifyOnFullExportRunning, nb_fullExportStillRunning, nb_notifyOnPitrGap,
     nb_pitrGapFound, nb_isLastIncrementalExportParameterValid, nb_useLastIncrementalExportTimeParameterValue,
     nb_useFullExportTimeParameterValue, nb_notifyOnPitrDisabled, nb_pitrDisabledFail]"

datatype state_type = Task | Choice | Pass | Wait | Succeed | Fail

text \<open>
  Modelled from the spec: the class \<open>NodeBuilder\<close> (lib/nodeBuilder.ts), which constructs
  the steps, is not among the sources. The kind of each step is read off the way
  \<open>deployStepFunction\<close> uses it and off its name: \<open>.when\<close> and \<open>.afterwards\<close> exist on
  choice states only, \<open>.addCatch\<close> and \<open>.addRetry\<close> on task states only; the
  \<open>notifyOn...\<close> steps publish to the notification channel and are tasks; a step the
  workflow ends at is a \<open>Succeed\<close> or a \<open>Fail\<close> state as its name says (for
  \<open>fullExportStillRunning\<close> and \<open>pitrGapFound\<close> the name does not say, and no statement
  below depends on which of the two they are).
\<close>

primrec kind :: "node \<Rightarrow> state_type" where
  "kind nb_notifyOnIncrementalExport = Task"
| "kind nb_notifyOnTaskFailed = Task"
| "kind nb_didIncrementalExportCompleteSuccessfully = Choice"
| "kind nb_incrementalExportFailed = Fail"
| "kind nb_incrementalExportSucceeded = Succeed"
| "kind nb_setWorkflowStateParameterToPitrGap = Task"
| "kind nb_notifyOnIncrementalExportStartTimeOutsidePitrWindow = Task"
| "kind nb_incrementalExportStartTimeOutsidePitrWindowFail = Fail"
| "kind nb_getNextIncrementalExportTimeLambdaInvoke = Task"
| "kind nb_checkIncrementalExportNeeded = Choice"
| "kind nb_incrementalExportNotNeeded = Succeed"
| "kind nb_isEarliestRestoreDateTimeValidChoice = Choice"
| "kind nb_executeIncrementalExport = Task"
| "kind nb_setLastIncrementalExportTimeParameter = Task"
| "kind nb_describeIncrementalExport = Task"
| "kind nb_incrementalExportCompletedState = Choice"
| "kind nb_incrementalExportParameterTrue = Pass"
| "kind nb_incrementalExportParameterFalse = Pass"
| "kind nb_waitForIncrementalExport = Wait"
| "kind nb_setWorkflowInitiatedParameter = Task"
| "kind nb_notifyOnFullExport = Task"
| "kind nb_didWorkflowInitiateSuccessfully = Choice"
| "kind nb_fullExportFailed = Fail"
| "kind nb_fullExportSucceeded = Succeed"
| "kind nb_taskFailedNode = Fail"
| "kind nb_executeFullExport = Task"
| "kind nb_setFullExportTimeParameter = Task"
| "kind nb_setWorkflowActionParameterToRun = Task"
| "kind nb_setWorkflowStateParameterToNormal = Task"
| "kind nb_setEmptyWorkflowInitiatedParameter = Task"
| "kind nb_deleteLastIncrementalExportTimeParameter = Task"
| "kind nb_describeFullExport = Task"
| "kind nb_fullExportCompletedState = Choice"
| "kind nb_workflowInitializedParameterTrue = Pass"
| "kind nb_workflowInitializedParameterFalse = Pass"
| "kind nb_waitForFullExport = Wait"
| "kind nb_getParametersTask = Task"
| "kind nb_cleanParametersPassState = Pass"
| "kind nb_checkWorkflowAction = Choice"
| "kind nb_workflowPaused = Succeed"
| "kind nb_ensureTableExistsTask = Task"
| "kind nb_describeContinuousBackupsAwsServiceTask = Task"
| "kind nb_pitrEnabledChoice = Choice"
| "kind nb_initializeWorkflowState = Choice"
| "kind nb_notifyOnFullExportRunning = Task"
| "kind nb_fullExportStillRunning = Succeed"
| "kind nb_notifyOnPitrGap = Task"
| "kind nb_pitrGapFound = Fail"
| "kind nb_isLastIncrementalExportParameterValid = Choice"
| "kind nb_useLastIncrementalExportTimeParameterValue = Pass"
| "kind nb_useFullExportTimeParameterValue = Pass"
| "kind nb_notifyOnPitrDisabled = Task"
| "kind nb_pitrDisabledFail = Fail"

section \<open>The state graph under construction\<close>

text \<open>
  The steps are objects of the CDK library; the calls of \<open>deployStepFunction\<close> mutate
  them. The model keeps what the calls write in one record: the \<open>next\<close> transition of a
  state, the rules and the default of a choice state, and the catchers and retriers of a
  task state, each list in the order of the calls.
\<close>

record retry_props =
  errors :: "string list"
  interval :: nat   \<comment> \<open>seconds\<close>
  maxAttempts :: nat
  backoffRate :: rat

record sm =
  nexts :: "(node \<times> node) list"
  choices :: "(node \<times> cond \<times> node) list"
  defaults :: "(node \<times> node) list"
  catches :: "(node \<times> string list \<times> node) list"
  retries :: "(node \<times> retry_props) list"

definition empty_sm :: sm where
  "empty_sm = \<lparr>nexts = [], choices = [], defaults = [], catches = [], retries = []\<rparr>"

datatype build_error =
    AlreadyHasNext node         \<comment> \<open>State '...' already has a next state\<close>
  | AlreadyHasDefault node      \<comment> \<open>Choice '...' already has a default next state\<close>
  | CannotAddToChain node       \<comment> \<open>Cannot add to chain: last state in chain does not allow it\<close>

text \<open>An end of a chain: a state that takes a \<open>next\<close>, or the default of a choice state.\<close>

datatype chain_end = EndState node | DefaultAsNext node

record chain =
  startState :: node
  endStates :: "chain_end list"

definition nextable :: "node \<Rightarrow> bool" where
  "nextable n = (kind n = Task \<or> kind n = Pass \<or> kind n = Wait)"

text \<open>A state used as a chain starts at itself and ends at itself when it takes a \<open>next\<close>.\<close>

definition state_chain :: "node \<Rightarrow> chain" where
  "state_chain n = \<lparr>startState = n, endStates = (if nextable n then [EndState n] else [])\<rparr>"

definition makeNext :: "node \<Rightarrow> node \<Rightarrow> sm \<Rightarrow> build_error + sm" where
  "makeNext s t g =
     (case map_of (nexts g) s of
        Some _ \<Rightarrow> Inl (AlreadyHasNext s)
      | None \<Rightarrow> Inr (g\<lparr>nexts := nexts g @ [(s, t)]\<rparr>))"

definition makeDefault :: "node \<Rightarrow> node \<Rightarrow> sm \<Rightarrow> build_error + sm" where
  "makeDefault s t g =
     (case map_of (defaults g) s of
        Some _ \<Rightarrow> Inl (AlreadyHasDefault s)
      | None \<Rightarrow> Inr (g\<lparr>defaults := defaults g @ [(s, t)]\<rparr>))"

definition connect :: "chain_end \<Rightarrow> node \<Rightarrow> sm \<Rightarrow> build_error + sm" where
  "connect e t g = (case e of EndState s \<Rightarrow> makeNext s t g | DefaultAsNext s \<Rightarrow> makeDefault s t g)"

fun connect_all :: "chain_end list \<Rightarrow> node \<Rightarrow> sm \<Rightarrow> build_error + sm" where
  "connect_all [] t g = Inr g"
| "connect_all (e # es) t g = (case connect e t g of Inl x \<Rightarrow> Inl x | Inr g' \<Rightarrow> connect_all es t g')"

text \<open>
  \<open>State.outgoingTransitions\<close> without the error handlers: the \<open>next\<close>, the default and
  the targets of the choice rules.
\<close>

definition outgoingTransitions :: "sm \<Rightarrow> node \<Rightarrow> node list" where
  "outgoingTransitions g s =
     (case map_of (nexts g) s of Some t \<Rightarrow> [t] | None \<Rightarrow> [])
     @ (case map_of (defaults g) s of Some t \<Rightarrow> [t] | None \<Rightarrow> [])
     @ map (\<lambda>(_, _, t). t) (filter (\<lambda>(m, _, _). m = s) (choices g))"

text \<open>
  \<open>State.findReachableEndStates\<close>: a breadth-first walk from a state; a state with no
  outgoing transition is an end state. The arguments are the graph, the queue, the
  visited states and the end states found so far.
\<close>

lemma in_all_nodes: "n \<in> set all_nodes"
  by (cases n) (simp_all add: all_nodes_def)

lemma unvisited_decreases:
  "s \<in> set xs \<Longrightarrow> s \<notin> set v \<Longrightarrow>
   length (filter (\<lambda>n. n \<notin> set (s # v)) xs) < length (filter (\<lambda>n. n \<notin> set v) xs)"
proof (induction xs)
  case Nil
  then show ?case by simp
next
  case (Cons x xs)
  have le: "length (filter (\<lambda>n. n \<notin> set (s # v)) xs) \<le> length (filter (\<lambda>n. n \<notin> set v) xs)"
    by (induction xs) auto
  show ?case
  proof (cases "x = s")
    case True
    with Cons.prems le show ?thesis by simp
  next
    case False
    with Cons show ?thesis by auto
  qed
qed

function findReachableEndStates_loop :: "sm \<Rightarrow> node list \<Rightarrow> node list \<Rightarrow> node list \<Rightarrow> node list" where
  "findReachableEndStates_loop g [] visited ret = ret"
| "findReachableEndStates_loop g (s # queue) visited ret =
     (if s \<in> set visited then findReachableEndStates_loop g queue visited ret
      else if outgoingTransitions g s \<noteq> []
        then findReachableEndStates_loop g (queue @ outgoingTransitions g s) (s # visited) ret
        else findReachableEndStates_loop g queue (s # visited) (ret @ [s]))"
  by pat_completeness auto
termination
proof (relation "inv_image (less_than <*lex*> less_than)
    (\<lambda>(g, q, v, r). (length (filter (\<lambda>n. n \<notin> set v) all_nodes), length q))")
  show "wf (inv_image (less_than <*lex*> less_than)
    (\<lambda>(g, q, v, r). (length (filter (\<lambda>n. n \<notin> set v) all_nodes), length q)))"
    by (rule wf_inv_image) (rule wf_lex_prod; rule wf_less_than)
next
  fix g :: sm and s :: node and queue visited ret :: "node list"
  assume "s \<in> set visited"
  then show "((g, queue, visited, ret), (g, s # queue, visited, ret)) \<in>
    inv_image (less_than <*lex*> less_than)
      (\<lambda>(g, q, v, r). (length (filter (\<lambda>n. n \<notin> set v) all_nodes), length q))"
    by simp
next
  fix g :: sm and s :: node and queue visited ret :: "node list"
  assume "s \<notin> set visited"
  then have "length (filter (\<lambda>n. n \<notin> set (s # visited)) all_nodes)
      < length (filter (\<lambda>n. n \<notin> set visited) all_nodes)"
    using unvisited_decreases [OF in_all_nodes] by blast
  then show "((g, queue @ outgoingTransitions g s, s # visited, ret), (g, s # queue, visited, ret)) \<in>
    inv_image (less_than <*lex*> less_than)
      (\<lambda>(g, q, v, r). (length (filter (\<lambda>n. n \<notin> set v) all_nodes), length q))"
    by simp
next
  fix g :: sm and s :: node and queue visited ret :: "node list"
  assume "s \<notin> set visited"
  then have "length (filter (\<lambda>n. n \<notin> set (s # visited)) all_nodes)
      < length (filter (\<lambda>n. n \<notin> set visited) all_nodes)"
    using unvisited_decreases [OF in_all_nodes] by blast
  then show "((g, queue, s # visited, ret @ [s]), (g, s # queue, visited, ret)) \<in>
    inv_image (less_than <*lex*> less_than)
      (\<lambda>(g, q, v, r). (length (filter (\<lambda>n. n \<notin> set v) all_nodes), length q))"
    by simp
qed

definition findReachableEndStates :: "sm \<Rightarrow> node \<Rightarrow> node list" where
  "findReachableEndStates g start = findReachableEndStates_loop g [start] [] []"

section \<open>The builder calls\<close>

text \<open>
  The expressions of \<open>deployStepFunction\<close> are method chains over the steps. Each method
  is a constructor here, with the receiver first: \<open>a.next(b)\<close> is \<open>Next a b\<close>,
  \<open>a.when(c, b)\<close> is \<open>When a c b\<close>, \<open>a.addCatch(h, {errors: es})\<close> is \<open>AddCatch a h es\<close>
  (the \<open>resultPath\<close> of a catcher shapes the data passed on, not the transition, and is
  left out), \<open>a.addRetry(r)\<close> is \<open>AddRetry a r\<close> and
  \<open>a.afterwards({includeOtherwise: true})\<close> is \<open>Afterwards a\<close>.
\<close>

datatype expr =
    N node
  | Next expr expr
  | When expr cond expr
  | Afterwards expr
  | AddCatch expr expr "string list"
  | AddRetry expr retry_props

text \<open>
  Evaluation follows JavaScript: the receiver, then the argument, then the call.
  \<^item> \<open>next\<close> connects every end of the receiver to the start of the argument
    (\<open>State.next\<close>, \<open>Chain.next\<close>) and yields the chain from the receiver's start to the
    argument's ends;
  \<^item> \<open>when\<close> appends a rule to the choice state, \<open>addCatch\<close> a catcher and \<open>addRetry\<close>
    a retrier to the task state; each returns the state itself;
  \<^item> \<open>afterwards\<close> yields the chain that starts at the choice state and ends at the
    end states reachable from it that take a \<open>next\<close>, and at its default.
\<close>

fun eval :: "expr \<Rightarrow> sm \<Rightarrow> build_error + (chain \<times> sm)" where
  "eval (N n) g = Inr (state_chain n, g)"
| "eval (Next a b) g =
     (case eval a g of Inl x \<Rightarrow> Inl x | Inr (ca, g1) \<Rightarrow>
      (case eval b g1 of Inl x \<Rightarrow> Inl x | Inr (cb, g2) \<Rightarrow>
        (if endStates ca = [] then Inl (CannotAddToChain (startState ca))
         else (case connect_all (endStates ca) (startState cb) g2 of Inl x \<Rightarrow> Inl x
               | Inr g3 \<Rightarrow> Inr (\<lparr>startState = startState ca, endStates = endStates cb\<rparr>, g3)))))"
| "eval (When a c b) g =
     (case eval a g of Inl x \<Rightarrow> Inl x | Inr (ca, g1) \<Rightarrow>
      (case eval b g1 of Inl x \<Rightarrow> Inl x | Inr (cb, g2) \<Rightarrow>
        Inr (state_chain (startState ca),
             g2\<lparr>choices := choices g2 @ [(startState ca, c, startState cb)]\<rparr>)))"
| "eval (Afterwards a) g =
     (case eval a g of Inl x \<Rightarrow> Inl x | Inr (ca, g1) \<Rightarrow>
      (case map_of (defaults g1) (startState ca) of
         Some _ \<Rightarrow> Inl (AlreadyHasDefault (startState ca))
       | None \<Rightarrow>
          Inr (\<lparr>startState = startState ca,
                endStates = map EndState (filter nextable (findReachableEndStates g1 (startState ca)))
                              @ [DefaultAsNext (startState ca)]\<rparr>, g1)))"
| "eval (AddCatch a h es) g =
     (case eval a g of Inl x \<Rightarrow> Inl x | Inr (ca, g1) \<Rightarrow>
      (case eval h g1 of Inl x \<Rightarrow> Inl x | Inr (ch, g2) \<Rightarrow>
        Inr (state_chain (startState ca),
             g2\<lparr>catches := catches g2 @ [(startState ca, es, startState ch)]\<rparr>)))"
| "eval (AddRetry a r) g =
     (case eval a g of Inl x \<Rightarrow> Inl x | Inr (ca, g1) \<Rightarrow>
        Inr (state_chain (startState ca), g1\<lparr>retries := retries g1 @ [(startState ca, r)]\<rparr>))"

text \<open>A statement is an expression evaluated for its effect on the graph.\<close>

fun exec_stmts :: "expr list \<Rightarrow> sm \<Rightarrow> build_error + sm" where
  "exec_stmts [] g = Inr g"
| "exec_stmts (e # es) g = (case eval e g of Inl x \<Rightarrow> Inl x | Inr (_, g') \<Rightarrow> exec_stmts es g')"

section \<open>deployStepFunction\<close>

text \<open>
  The constants of \<open>IncrementalExportDefaults\<close> (lib/constants/incrementalExportDefaults.ts)
  are not among the sources; they are a parameter of the model.
\<close>

record IncrementalExportDefaults =
  SDK_EXCEPTION_INTERVAL_DURATION_SECONDS :: nat
  SDK_EXCEPTION_RETRY_ATTEMPTS :: nat
  SDK_EXCEPTION_BACKOFF_RATE :: rat

definition dynamoDbSdkRetryHandler :: "IncrementalExportDefaults \<Rightarrow> retry_props" where
  "dynamoDbSdkRetryHandler d =
     \<lparr>errors = [''DynamoDb.SdkClientException''],
      interval = SDK_EXCEPTION_INTERVAL_DURATION_SECONDS d,
      maxAttempts = SDK_EXCEPTION_RETRY_ATTEMPTS d,
      backoffRate = SDK_EXCEPTION_BACKOFF_RATE d\<rparr>"

definition ssmSdkRetryHandler :: "IncrementalExportDefaults \<Rightarrow> retry_props" where
  "ssmSdkRetryHandler d =
     \<lparr>errors = [''Ssm.SdkClientException''],
      interval = SDK_EXCEPTION_INTERVAL_DURATION_SECONDS d,
      maxAttempts = SDK_EXCEPTION_RETRY_ATTEMPTS d,
      backoffRate = SDK_EXCEPTION_BACKOFF_RATE d\<rparr>"

abbreviation toNotifyOnTaskFailed :: "expr \<Rightarrow> expr" where
  "toNotifyOnTaskFailed a \<equiv> AddCatch a (N nb_notifyOnTaskFailed) [''States.ALL'']"

text \<open>The statements of \<open>deployStepFunction\<close>, in the order of the source (lines 396 to 550).\<close>

definition stmt_notifyOnIncrementalExport :: expr where
  "stmt_notifyOnIncrementalExport =
     Next (toNotifyOnTaskFailed (N nb_notifyOnIncrementalExport))
       (Next (Afterwards
          (When (N nb_didIncrementalExportCompleteSuccessfully)
             cb_incrementalExportStateIsFalse (N nb_incrementalExportFailed)))
        (N nb_incrementalExportSucceeded))"

definition stmt_setWorkflowStateParameterToPitrGap :: "IncrementalExportDefaults \<Rightarrow> expr" where
  "stmt_setWorkflowStateParameterToPitrGap d =
     Next (AddRetry (toNotifyOnTaskFailed (N nb_setWorkflowStateParameterToPitrGap)) (ssmSdkRetryHandler d))
       (Next (N nb_notifyOnIncrementalExportStartTimeOutsidePitrWindow)
          (N nb_incrementalExportStartTimeOutsidePitrWindowFail))"

definition stmt_getNextIncrementalExportTimeLambdaInvoke :: "IncrementalExportDefaults \<Rightarrow> expr" where
  "stmt_getNextIncrementalExportTimeLambdaInvoke d =
     Next (toNotifyOnTaskFailed (N nb_getNextIncrementalExportTimeLambdaInvoke))
      (Next (Afterwards
         (When (N nb_checkIncrementalExportNeeded)
            cb_nextIncrementalExportEndTimeIsPastCurrentTime (N nb_incrementalExportNotNeeded)))
       (Next (Afterwards
          (When (N nb_isEarliestRestoreDateTimeValidChoice)
             cb_earliestRestoreDateTimeIsGreaterThanExportStartTime (N nb_setWorkflowStateParameterToPitrGap)))
        (Next (AddRetry
                (AddRetry
                  (AddCatch
                    (toNotifyOnTaskFailed (N nb_executeIncrementalExport))
                    (N nb_setWorkflowStateParameterToPitrGap) [''DynamoDb.InvalidExportTimeException''])
                  \<lparr>errors = [''DynamoDb.InvalidExportTimeException''], interval = 1 * 60,
                   maxAttempts = 2, backoffRate = 1\<rparr>)
                (dynamoDbSdkRetryHandler d))
         (Next (AddRetry (toNotifyOnTaskFailed (N nb_setLastIncrementalExportTimeParameter)) (ssmSdkRetryHandler d))
          (Next (toNotifyOnTaskFailed (AddRetry (N nb_describeIncrementalExport) (dynamoDbSdkRetryHandler d)))
           (Next (Afterwards
              (When
                (When (N nb_incrementalExportCompletedState)
                   cb_incrementalExportCompleted
                   (Next (N nb_incrementalExportParameterTrue) (N nb_notifyOnIncrementalExport)))
                cb_incrementalExportFailed
                (Next (N nb_incrementalExportParameterFalse) (N nb_notifyOnIncrementalExport))))
            (Next (N nb_waitForIncrementalExport) (N nb_describeIncrementalExport))))))))"

definition stmt_setWorkflowInitiatedParameter :: "IncrementalExportDefaults \<Rightarrow> expr" where
  "stmt_setWorkflowInitiatedParameter d =
     Next (AddRetry (toNotifyOnTaskFailed (N nb_setWorkflowInitiatedParameter)) (ssmSdkRetryHandler d))
      (Next (toNotifyOnTaskFailed (N nb_notifyOnFullExport))
       (Next (Afterwards
          (When (N nb_didWorkflowInitiateSuccessfully)
             cb_workflowInitializedParameterOutputFalse (N nb_fullExportFailed)))
        (N nb_fullExportSucceeded)))"

definition stmt_notifyOnTaskFailed :: expr where
  "stmt_notifyOnTaskFailed = Next (N nb_notifyOnTaskFailed) (N nb_taskFailedNode)"

definition stmt_executeFullExport :: "IncrementalExportDefaults \<Rightarrow> expr" where
  "stmt_executeFullExport d =
     Next (AddRetry (toNotifyOnTaskFailed (N nb_executeFullExport)) (dynamoDbSdkRetryHandler d))
      (Next (AddRetry (toNotifyOnTaskFailed (N nb_setFullExportTimeParameter)) (ssmSdkRetryHandler d))
       (Next (AddRetry
               (toNotifyOnTaskFailed
                 (AddCatch (N nb_setWorkflowActionParameterToRun)
                    (N nb_setEmptyWorkflowInitiatedParameter) [''Ssm.ParameterNotFoundException'']))
               (ssmSdkRetryHandler d))
        (Next (AddRetry
                (toNotifyOnTaskFailed
                  (AddCatch (N nb_setWorkflowStateParameterToNormal)
                     (N nb_setEmptyWorkflowInitiatedParameter) [''Ssm.ParameterNotFoundException'']))
                (ssmSdkRetryHandler d))
         (Next (AddRetry (toNotifyOnTaskFailed (N nb_setEmptyWorkflowInitiatedParameter)) (ssmSdkRetryHandler d))
          (Next (AddRetry
                  (toNotifyOnTaskFailed
                    (AddCatch (N nb_deleteLastIncrementalExportTimeParameter)
                       (N nb_describeFullExport) [''Ssm.ParameterNotFoundException'']))
                  (ssmSdkRetryHandler d))
           (Next (toNotifyOnTaskFailed (AddRetry (N nb_describeFullExport) (dynamoDbSdkRetryHandler d)))
            (Next (Afterwards
               (When
                 (When (N nb_fullExportCompletedState)
                    cb_fullExportCompleted
                    (Next (N nb_workflowInitializedParameterTrue) (N nb_setWorkflowInitiatedParameter)))
                 cb_fullExportFailed
                 (Next (N nb_workflowInitializedParameterFalse) (N nb_setWorkflowInitiatedParameter))))
             (Next (N nb_waitForFullExport) (N nb_describeFullExport)))))))))"

definition definition_expr :: "IncrementalExportDefaults \<Rightarrow> expr" where
  "definition_expr d =
     Next (AddRetry (toNotifyOnTaskFailed (N nb_getParametersTask)) (ssmSdkRetryHandler d))
      (Next (N nb_cleanParametersPassState)
       (Next (Afterwards (When (N nb_checkWorkflowAction) cb_isWorkflowPaused (N nb_workflowPaused)))
        (Next (AddRetry (toNotifyOnTaskFailed (N nb_ensureTableExistsTask)) (dynamoDbSdkRetryHandler d))
         (Next (toNotifyOnTaskFailed
                 (AddRetry (N nb_describeContinuousBackupsAwsServiceTask) (dynamoDbSdkRetryHandler d)))
          (Next (Afterwards
             (When (N nb_pitrEnabledChoice) cb_pitrIsEnabled
               (Next (Afterwards
                  (When
                    (When
                      (When
                        (When (N nb_initializeWorkflowState)
                           cb_fullExportStillRunning
                           (Next (toNotifyOnTaskFailed (N nb_notifyOnFullExportRunning))
                              (N nb_fullExportStillRunning)))
                        cb_resetWithFullExportAgain (N nb_executeFullExport))
                      cb_pitrGapWorkflowState
                      (Next (toNotifyOnTaskFailed (N nb_notifyOnPitrGap)) (N nb_pitrGapFound)))
                    cb_executeFullExport (N nb_executeFullExport)))
                (Next (Afterwards
                   (When (N nb_isLastIncrementalExportParameterValid)
                      cb_lastIncrementalExportTimeIsValid
                      (Next (N nb_useLastIncrementalExportTimeParameterValue)
                         (N nb_getNextIncrementalExportTimeLambdaInvoke))))
                 (Next (N nb_useFullExportTimeParameterValue)
                    (N nb_getNextIncrementalExportTimeLambdaInvoke))))))
           (Next (toNotifyOnTaskFailed (N nb_notifyOnPitrDisabled)) (N nb_pitrDisabledFail)))))))"

text \<open>
  The state machine is created from the chain \<open>definition\<close>: it starts at the chain's
  start state and holds the graph as the calls left it.
\<close>

record machine =
  startAt :: node
  graph :: sm

definition deployStepFunction :: "IncrementalExportDefaults \<Rightarrow> build_error + machine" where
  "deployStepFunction d =
     (case exec_stmts
        [stmt_notifyOnIncrementalExport,
         stmt_setWorkflowStateParameterToPitrGap d,
         stmt_getNextIncrementalExportTimeLambdaInvoke d,
         stmt_setWorkflowInitiatedParameter d,
         stmt_notifyOnTaskFailed,
         stmt_executeFullExport d] empty_sm of
        Inl x \<Rightarrow> Inl x
      | Inr g \<Rightarrow>
         (case eval (definition_expr d) g of
            Inl x \<Rightarrow> Inl x
          | Inr (c, g') \<Rightarrow> Inr \<lparr>startAt = startState c, graph = g'\<rparr>))"

section \<open>Rendering and running the state machine\<close>

text \<open>
  The CDK library renders the graph to the Amazon States Language, and the Step Functions
  service runs it. Both are outside the repository; what the statements below need of
  them is modelled here.

  \<^bold>\<open>Rendering.\<close> The rules of a choice state are rendered in the order of the \<open>when\<close>
  calls. The catchers and the retriers of a state are rendered in the order of the calls,
  except that \<open>State.renderRetryCatch\<close> sorts an entry that names \<open>States.ALL\<close> behind the
  others: the language requires the wildcard to stand alone and in the last catcher, and
  the service refuses a definition that has it earlier.
\<close>

definition renderList :: "('a \<Rightarrow> string list) \<Rightarrow> 'a list \<Rightarrow> 'a list" where
  "renderList errs xs =
     filter (\<lambda>x. ''States.ALL'' \<notin> set (errs x)) xs @ filter (\<lambda>x. ''States.ALL'' \<in> set (errs x)) xs"

definition Catch :: "sm \<Rightarrow> node \<Rightarrow> (string list \<times> node) list" where
  "Catch g n = renderList fst (map snd (filter (\<lambda>(m, _). m = n) (catches g)))"

definition Retry :: "sm \<Rightarrow> node \<Rightarrow> retry_props list" where
  "Retry g n = renderList errors (map snd (filter (\<lambda>(m, _). m = n) (retries g)))"

definition Choices :: "sm \<Rightarrow> node \<Rightarrow> (cond \<times> node) list" where
  "Choices g n = map snd (filter (\<lambda>(m, _). m = n) (choices g))"

text \<open>
  \<^bold>\<open>Running.\<close> A task either succeeds or reports an error name. On an error the
  interpreter takes the first retrier whose \<open>ErrorEquals\<close> matches; while that retrier has
  attempts left the state is run again, after \<open>IntervalSeconds\<close> multiplied by
  \<open>BackoffRate\<close> for each retry already made. Otherwise the first matching catcher gives
  the next state, and with no matching catcher the execution fails. \<open>States.ALL\<close>
  matches every error name. A choice state takes the first rule whose condition holds,
  else its default.
\<close>

definition matches :: "string list \<Rightarrow> string \<Rightarrow> bool" where
  "matches es e = (e \<in> set es \<or> ''States.ALL'' \<in> set es)"

fun find_retrier :: "retry_props list \<Rightarrow> string \<Rightarrow> nat \<Rightarrow> (nat \<times> retry_props) option" where
  "find_retrier [] e i = None"
| "find_retrier (r # rs) e i = (if matches (errors r) e then Some (i, r) else find_retrier rs e (Suc i))"

fun first_catch :: "(string list \<times> node) list \<Rightarrow> string \<Rightarrow> node option" where
  "first_catch [] e = None"
| "first_catch ((es, t) # cs) e = (if matches es e then Some t else first_catch cs e)"

fun first_choice :: "(cond \<times> node) list \<Rightarrow> cond list \<Rightarrow> node option" where
  "first_choice [] h = None"
| "first_choice ((c, t) # rs) h = (if c \<in> set h then Some t else first_choice rs h)"

text \<open>The retries made so far at the current state, one count for each of its retriers.\<close>

definition attempts_of :: "nat list \<Rightarrow> nat \<Rightarrow> nat" where
  "attempts_of as i = (if i < length as then as ! i else 0)"

definition bump :: "nat list \<Rightarrow> nat \<Rightarrow> nat list" where
  "bump as i = (as @ replicate (Suc i - length as) 0)[i := Suc (attempts_of as i)]"

text \<open>The seconds waited before retry number \<open>k\<close> (the first retry is number 1).\<close>

definition retry_delay :: "retry_props \<Rightarrow> nat \<Rightarrow> rat" where
  "retry_delay r k = of_nat (interval r) * backoffRate r ^ (k - 1)"

datatype outcome = Succeeded | Raised string

text \<open>
  What the interpreter meets at one state: the outcome of the task, when the state is a
  task, and the conditions that hold of the state's input, when it is a choice.
\<close>

record observation =
  outcome :: outcome
  holds :: "cond list"

datatype exec =
    At node "nat list"       \<comment> \<open>about to run a state, with the retries made at it\<close>
  | Ended node               \<comment> \<open>the execution ended at a state\<close>
  | Aborted node string      \<comment> \<open>the execution failed at a state on an error nobody caught\<close>

definition advance :: "sm \<Rightarrow> node \<Rightarrow> exec" where
  "advance g n = (case map_of (nexts g) n of Some t \<Rightarrow> At t [] | None \<Rightarrow> Ended n)"

definition caught :: "sm \<Rightarrow> node \<Rightarrow> string \<Rightarrow> exec" where
  "caught g n e = (case first_catch (Catch g n) e of Some t \<Rightarrow> At t [] | None \<Rightarrow> Aborted n e)"

definition on_error :: "sm \<Rightarrow> node \<Rightarrow> nat list \<Rightarrow> string \<Rightarrow> exec" where
  "on_error g n as e =
     (case find_retrier (Retry g n) e 0 of
        Some (i, r) \<Rightarrow> if attempts_of as i < maxAttempts r then At n (bump as i) else caught g n e
      | None \<Rightarrow> caught g n e)"

definition take_choice :: "sm \<Rightarrow> node \<Rightarrow> cond list \<Rightarrow> exec" where
  "take_choice g n h =
     (case first_choice (Choices g n) h of
        Some t \<Rightarrow> At t []
      | None \<Rightarrow> (case map_of (defaults g) n of
                   Some t \<Rightarrow> At t []
                 | None \<Rightarrow> Aborted n ''States.NoChoiceMatched''))"

definition step :: "sm \<Rightarrow> observation \<Rightarrow> node \<Rightarrow> nat list \<Rightarrow> exec" where
  "step g ob n as =
     (case kind n of
        Task \<Rightarrow> (case outcome ob of Succeeded \<Rightarrow> advance g n | Raised e \<Rightarrow> on_error g n as e)
      | Choice \<Rightarrow> take_choice g n (holds ob)
      | Pass \<Rightarrow> advance g n
      | Wait \<Rightarrow> advance g n
      | Succeed \<Rightarrow> Ended n
      | Fail \<Rightarrow> Ended n)"

text \<open>The run of a machine on a sequence of observations, one for each state it runs.\<close>

fun run :: "sm \<Rightarrow> observation list \<Rightarrow> exec \<Rightarrow> exec list" where
  "run g [] x = [x]"
| "run g (ob # obs) (At n as) = At n as # run g obs (step g ob n as)"
| "run g (ob # obs) (Ended n) = [Ended n]"
| "run g (ob # obs) (Aborted n e) = [Aborted n e]"

text \<open>The states a run is at, in order.\<close>

fun visited :: "exec list \<Rightarrow> node list" where
  "visited [] = []"
| "visited (At n as # xs) = n # visited xs"
| "visited (x # xs) = visited xs"

text \<open>The graph that the calls of \<open>deployStepFunction\<close> leave behind, written out.\<close>

definition workflow_graph :: "IncrementalExportDefaults \<Rightarrow> sm" where
  "workflow_graph d =
    \<lparr>nexts =
       [(nb_notifyOnIncrementalExport, nb_didIncrementalExportCompleteSuccessfully),
        (nb_notifyOnIncrementalExportStartTimeOutsidePitrWindow, nb_incrementalExportStartTimeOutsidePitrWindowFail),
        (nb_setWorkflowStateParameterToPitrGap, nb_notifyOnIncrementalExportStartTimeOutsidePitrWindow),
        (nb_incrementalExportParameterTrue, nb_notifyOnIncrementalExport),
        (nb_incrementalExportParameterFalse, nb_notifyOnIncrementalExport),
        (nb_waitForIncrementalExport, nb_describeIncrementalExport),
        (nb_describeIncrementalExport, nb_incrementalExportCompletedState),
        (nb_setLastIncrementalExportTimeParameter, nb_describeIncrementalExport),
        (nb_executeIncrementalExport, nb_setLastIncrementalExportTimeParameter),
        (nb_getNextIncrementalExportTimeLambdaInvoke, nb_checkIncrementalExportNeeded),
        (nb_notifyOnFullExport, nb_didWorkflowInitiateSuccessfully),
        (nb_setWorkflowInitiatedParameter, nb_notifyOnFullExport),
        (nb_notifyOnTaskFailed, nb_taskFailedNode),
        (nb_workflowInitializedParameterTrue, nb_setWorkflowInitiatedParameter),
        (nb_workflowInitializedParameterFalse, nb_setWorkflowInitiatedParameter),
        (nb_waitForFullExport, nb_describeFullExport),
        (nb_describeFullExport, nb_fullExportCompletedState),
        (nb_deleteLastIncrementalExportTimeParameter, nb_describeFullExport),
        (nb_setEmptyWorkflowInitiatedParameter, nb_deleteLastIncrementalExportTimeParameter),
        (nb_setWorkflowStateParameterToNormal, nb_setEmptyWorkflowInitiatedParameter),
        (nb_setWorkflowActionParameterToRun, nb_setWorkflowStateParameterToNormal),
        (nb_setFullExportTimeParameter, nb_setWorkflowActionParameterToRun),
        (nb_executeFullExport, nb_setFullExportTimeParameter),
        (nb_notifyOnFullExportRunning, nb_fullExportStillRunning),
        (nb_notifyOnPitrGap, nb_pitrGapFound),
        (nb_useLastIncrementalExportTimeParameterValue, nb_getNextIncrementalExportTimeLambdaInvoke),
        (nb_useFullExportTimeParameterValue, nb_getNextIncrementalExportTimeLambdaInvoke),
        (nb_notifyOnPitrDisabled, nb_pitrDisabledFail),
        (nb_describeContinuousBackupsAwsServiceTask, nb_pitrEnabledChoice),
        (nb_ensureTableExistsTask, nb_describeContinuousBackupsAwsServiceTask),
        (nb_cleanParametersPassState, nb_checkWorkflowAction),
        (nb_getParametersTask, nb_cleanParametersPassState)],
     choices =
       [(nb_didIncrementalExportCompleteSuccessfully, cb_incrementalExportStateIsFalse, nb_incrementalExportFailed),
        (nb_checkIncrementalExportNeeded, cb_nextIncrementalExportEndTimeIsPastCurrentTime,
           nb_incrementalExportNotNeeded),
        (nb_isEarliestRestoreDateTimeValidChoice, cb_earliestRestoreDateTimeIsGreaterThanExportStartTime,
           nb_setWorkflowStateParameterToPitrGap),
        (nb_incrementalExportCompletedState, cb_incrementalExportCompleted, nb_incrementalExportParameterTrue),
        (nb_incrementalExportCompletedState, cb_incrementalExportFailed, nb_incrementalExportParameterFalse),
        (nb_didWorkflowInitiateSuccessfully, cb_workflowInitializedParameterOutputFalse, nb_fullExportFailed),
        (nb_fullExportCompletedState, cb_fullExportCompleted, nb_workflowInitializedParameterTrue),
        (nb_fullExportCompletedState, cb_fullExportFailed, nb_workflowInitializedParameterFalse),
        (nb_checkWorkflowAction, cb_isWorkflowPaused, nb_workflowPaused),
        (nb_initializeWorkflowState, cb_fullExportStillRunning, nb_notifyOnFullExportRunning),
        (nb_initializeWorkflowState, cb_resetWithFullExportAgain, nb_executeFullExport),
        (nb_initializeWorkflowState, cb_pitrGapWorkflowState, nb_notifyOnPitrGap),
        (nb_initializeWorkflowState, cb_executeFullExport, nb_executeFullExport),
        (nb_isLastIncrementalExportParameterValid, cb_lastIncrementalExportTimeIsValid,
           nb_useLastIncrementalExportTimeParameterValue),
        (nb_pitrEnabledChoice, cb_pitrIsEnabled, nb_initializeWorkflowState)],
     defaults =
       [(nb_didIncrementalExportCompleteSuccessfully, nb_incrementalExportSucceeded),
        (nb_incrementalExportCompletedState, nb_waitForIncrementalExport),
        (nb_isEarliestRestoreDateTimeValidChoice, nb_executeIncrementalExport),
        (nb_checkIncrementalExportNeeded, nb_isEarliestRestoreDateTimeValidChoice),
        (nb_didWorkflowInitiateSuccessfully, nb_fullExportSucceeded),
        (nb_fullExportCompletedState, nb_waitForFullExport),
        (nb_isLastIncrementalExportParameterValid, nb_useFullExportTimeParameterValue),
        (nb_initializeWorkflowState, nb_isLastIncrementalExportParameterValid),
        (nb_pitrEnabledChoice, nb_notifyOnPitrDisabled),
        (nb_checkWorkflowAction, nb_ensureTableExistsTask)],
     catches =
       [(nb_notifyOnIncrementalExport, [''States.ALL''], nb_notifyOnTaskFailed),
        (nb_setWorkflowStateParameterToPitrGap, [''States.ALL''], nb_notifyOnTaskFailed),
        (nb_getNextIncrementalExportTimeLambdaInvoke, [''States.ALL''], nb_notifyOnTaskFailed),
        (nb_executeIncrementalExport, [''States.ALL''], nb_notifyOnTaskFailed),
        (nb_executeIncrementalExport, [''DynamoDb.InvalidExportTimeException''],
           nb_setWorkflowStateParameterToPitrGap),
        (nb_setLastIncrementalExportTimeParameter, [''States.ALL''], nb_notifyOnTaskFailed),
        (nb_describeIncrementalExport, [''States.ALL''], nb_notifyOnTaskFailed),
        (nb_setWorkflowInitiatedParameter, [''States.ALL''], nb_notifyOnTaskFailed),
        (nb_notifyOnFullExport, [''States.ALL''], nb_notifyOnTaskFailed),
        (nb_executeFullExport, [''States.ALL''], nb_notifyOnTaskFailed),
        (nb_setFullExportTimeParameter, [''States.ALL''], nb_notifyOnTaskFailed),
        (nb_setWorkflowActionParameterToRun, [''Ssm.ParameterNotFoundException''],
           nb_setEmptyWorkflowInitiatedParameter),
        (nb_setWorkflowActionParameterToRun, [''States.ALL''], nb_notifyOnTaskFailed),
        (nb_setWorkflowStateParameterToNormal, [''Ssm.ParameterNotFoundException''],
           nb_setEmptyWorkflowInitiatedParameter),
        (nb_setWorkflowStateParameterToNormal, [''States.ALL''], nb_notifyOnTaskFailed),
        (nb_setEmptyWorkflowInitiatedParameter, [''States.ALL''], nb_notifyOnTaskFailed),
        (nb_deleteLastIncrementalExportTimeParameter, [''Ssm.ParameterNotFoundException''],
           nb_describeFullExport),
        (nb_deleteLastIncrementalExportTimeParameter, [''States.ALL''], nb_notifyOnTaskFailed),
        (nb_describeFullExport, [''States.ALL''], nb_notifyOnTaskFailed),
        (nb_getParametersTask, [''States.ALL''], nb_notifyOnTaskFailed),
        (nb_ensureTableExistsTask, [''States.ALL''], nb_notifyOnTaskFailed),
        (nb_describeContinuousBackupsAwsServiceTask, [''States.ALL''], nb_notifyOnTaskFailed),
        (nb_notifyOnFullExportRunning, [''States.ALL''], nb_notifyOnTaskFailed),
        (nb_notifyOnPitrGap, [''States.ALL''], nb_notifyOnTaskFailed),
        (nb_notifyOnPitrDisabled, [''States.ALL''], nb_notifyOnTaskFailed)],
     retries =
       [(nb_setWorkflowStateParameterToPitrGap, ssmSdkRetryHandler d),
        (nb_executeIncrementalExport,
           \<lparr>errors = [''DynamoDb.InvalidExportTimeException''], interval = 60, maxAttempts = 2,
            backoffRate = 1\<rparr>),
        (nb_executeIncrementalExport, dynamoDbSdkRetryHandler d),
        (nb_setLastIncrementalExportTimeParameter, ssmSdkRetryHandler d),
        (nb_describeIncrementalExport, dynamoDbSdkRetryHandler d),
        (nb_setWorkflowInitiatedParameter, ssmSdkRetryHandler d),
        (nb_executeFullExport, dynamoDbSdkRetryHandler d),
        (nb_setFullExportTimeParameter, ssmSdkRetryHandler d),
        (nb_setWorkflowActionParameterToRun, ssmSdkRetryHandler d),
        (nb_setWorkflowStateParameterToNormal, ssmSdkRetryHandler d),
        (nb_setEmptyWorkflowInitiatedParameter, ssmSdkRetryHandler d),
        (nb_deleteLastIncrementalExportTimeParameter, ssmSdkRetryHandler d),
        (nb_describeFullExport, dynamoDbSdkRetryHandler d),
        (nb_getParametersTask, ssmSdkRetryHandler d),
        (nb_ensureTableExistsTask, dynamoDbSdkRetryHandler d),
        (nb_describeContinuousBackupsAwsServiceTask, dynamoDbSdkRetryHandler d)]\<rparr>"

section \<open>init: the sanity check, the state machine and its schedule\<close>

datatype error =
    Error string              \<comment> \<open>a JavaScript \<open>Error\<close> with its message\<close>
  | BuildError build_error    \<comment> \<open>an \<open>Error\<close> thrown by the CDK library while wiring the states\<close>

text \<open>
  \<^verbatim>\<open>
  private async sanityChecks() {
    if (w < 15 || w > 24*60) { throw new Error(`...`); }
  }
  \<close>
\<close>

definition sanityChecks :: "'a Configuration_scheme \<Rightarrow> error + unit" where
  "sanityChecks c =
     (if incrementalExportWindowSizeInMinutes c < 15 \<or> incrementalExportWindowSizeInMinutes c > 24 * 60
      then Inl (Error ''incrementalExportWindowSizeInMinutes has to be between 15 minutes and 1,440 minutes (24h)'')
      else Inr ())"

text \<open>
  \<open>cdk.Duration.minutes(x).toSeconds()\<close>: the library refuses a negative amount and,
  converting, an amount that is not a whole number of seconds.
\<close>

definition Duration_minutes_toSeconds :: "rat \<Rightarrow> error + rat" where
  "Duration_minutes_toSeconds amount =
     (if amount < 0 then Inl (Error ''Duration amounts cannot be negative'')
      else let v = amount * 60000 / 1000 in
        if of_int \<lfloor>v\<rfloor> = v then Inr v
        else Inl (Error ''cannot be converted into a whole number of seconds''))"

text \<open>
  The \<open>CfnSchedule\<close> that triggers the state machine: \<open>rateMinutes\<close> is the number in
  the schedule expression \<open>rate(N minutes)\<close>.
\<close>

record Schedule =
  maximumWindowInMinutes :: nat
  rateMinutes :: int
  maximumEventAgeInSeconds :: rat
  maximumRetryAttempts :: nat

record deployment =
  stateMachine :: machine
  schedule :: Schedule

definition init :: "'a Configuration_scheme \<Rightarrow> IncrementalExportDefaults \<Rightarrow> error + deployment" where
  "init c d =
     (case sanityChecks c of Inl e \<Rightarrow> Inl e | Inr _ \<Rightarrow>
      (case deployStepFunction d of Inl e \<Rightarrow> Inl (BuildError e) | Inr m \<Rightarrow>
        (let schedulerTime = \<lfloor>incrementalExportWindowSizeInMinutes c / 3\<rfloor> in
         (case Duration_minutes_toSeconds (of_int schedulerTime / 2) of Inl e \<Rightarrow> Inl e | Inr age \<Rightarrow>
            Inr \<lparr>stateMachine = m,
                 schedule = \<lparr>maximumWindowInMinutes = 15, rateMinutes = schedulerTime,
                             maximumEventAgeInSeconds = age, maximumRetryAttempts = 1\<rparr>\<rparr>))))"

text \<open>One cycle: the deployed machine run from its start state on a sequence of observations.\<close>

definition execute :: "IncrementalExportDefaults \<Rightarrow> observation list \<Rightarrow> build_error + exec list" where
  "execute d obs =
     (case deployStepFunction d of Inl e \<Rightarrow> Inl e | Inr m \<Rightarrow> Inr (run (graph m) obs (At (startAt m) [])))"

section \<open>The entry point: one export stack for each source table\<close>

text \<open>
  Strings are lists of characters. Table names are ASCII (DynamoDB allows letters,
  digits, underscore, hyphen and dot), and on ASCII strings the \<open>trim\<close> and
  \<open>toLowerCase\<close> below are JavaScript's; the statements about them are made for ASCII
  strings only.
\<close>

definition is_ascii :: "string \<Rightarrow> bool" where
  "is_ascii s = list_all (\<lambda>ch. (of_char ch :: nat) < 128) s"

text \<open>
  \<open>split\<close> is JavaScript's \<open>String.prototype.split\<close> with a separator of one
  character: it always yields at least one piece.
\<close>

fun split :: "char \<Rightarrow> string \<Rightarrow> string list" where
  "split sep [] = [[]]"
| "split sep (c # cs) =
     (if c = sep then [] # split sep cs
      else (case split sep cs of [] \<Rightarrow> [[c]] | p # ps \<Rightarrow> (c # p) # ps))"

text \<open>\<open>trim\<close> removes white space at both ends: tab, line feed, vertical tab, form feed, carriage return, space.\<close>

definition isWhiteSpace :: "char \<Rightarrow> bool" where
  "isWhiteSpace c = ((of_char c :: nat) \<in> {9, 10, 11, 12, 13, 32})"

definition trim :: "string \<Rightarrow> string" where
  "trim s = rev (dropWhile isWhiteSpace (rev (dropWhile isWhiteSpace s)))"

text \<open>
  \<open>toLowerCase\<close> on ASCII: a capital letter (code 65 to 90) gets the bit of value 32
  set, which adds 32 to its code; every other character stays.
\<close>

definition toLowerCase :: "string \<Rightarrow> string" where
  "toLowerCase s =
     map (\<lambda>c. if 65 \<le> (of_char c :: nat) \<and> (of_char c :: nat) \<le> 90
              then (case c of Char b0 b1 b2 b3 b4 b5 b6 b7 \<Rightarrow> Char b0 b1 b2 b3 b4 True b6 b7)
              else c) s"

text \<open>
  \<^verbatim>\<open>
  const tableNameParts = tableName.split("-");
  const shortTableName = (tableName.length > 10 ? tableNameParts[tableNameParts.length - 1] : tableName).toLowerCase();
  \<close>
  Reading past the end of an array gives \<open>undefined\<close>, and \<open>toLowerCase\<close> of it is a
  \<open>TypeError\<close>.
\<close>

definition shortTableName :: "string \<Rightarrow> error + string" where
  "shortTableName tableName =
     (if length tableName > 10
      then (case rev (split CHR ''-'' tableName) of
              [] \<Rightarrow> Inl (Error ''TypeError: Cannot read properties of undefined'')
            | p # _ \<Rightarrow> Inr (toLowerCase p))
      else Inr (toLowerCase tableName))"

text \<open>
  A scope holds its children by construct id. Registering a child under an id that the
  scope already holds throws ("There is already a Construct with name ..."). An id
  without a slash is registered as it is written (the library replaces each slash by two
  hyphens first); the statements below are made for names without a slash.
\<close>

definition addChild :: "string list \<Rightarrow> string \<Rightarrow> error + string list" where
  "addChild children childName =
     (if childName \<in> set children then Inl (Error ''There is already a Construct with name'')
      else Inr (children @ [childName]))"

text \<open>
  A nested export stack, as the loop creates it: its construct id and its configuration.
  \<^verbatim>\<open>new DynamoDbContinuousIncrementalExportsStack(incrementalExportSharedResourcesStack, tableName, {...})\<close>
  registers the stack under the shared stack by its id, the table name; the constructor
  of a nested stack then registers, in the same scope, the construct that holds the stack
  resource, under the id followed by \<open>.NestedStack\<close>. The constructor starts \<open>init\<close>
  without awaiting it, so an error of \<open>init\<close> is not thrown by the constructor.
  \<open>children\<close> are the ids the scope holds; the call returns the stack and the ids the
  scope holds afterwards.
\<close>

record 'a export_stack =
  stack_id :: string
  configuration :: "'a Configuration_scheme"

definition new_export_stack ::
  "string list \<Rightarrow> 'a Configuration_scheme \<Rightarrow> string \<Rightarrow> error + ('a export_stack \<times> string list)" where
  "new_export_stack children c tableName =
     (case shortTableName tableName of
        Inl e \<Rightarrow> Inl e
      | Inr short \<Rightarrow>
         (case addChild children tableName of
            Inl e \<Rightarrow> Inl e
          | Inr ids \<Rightarrow>
             (case addChild ids (tableName @ ''.NestedStack'') of
                Inl e \<Rightarrow> Inl e
              | Inr ids' \<Rightarrow>
                 Inr (\<lparr>stack_id = tableName,
                       configuration = c\<lparr>deploymentAlias := deploymentAlias c @ ''-'' @ short,
                                         sourceDynamoDbTableName := tableName,
                                         dataExportBucketPrefix := dataExportBucketPrefix c @ ''/'' @ tableName,
                                         dataExportBucketOwnerAccountId := dataExportBucketOwnerAccountId c\<rparr>\<rparr>,
                      ids'))))"

text \<open>The ids that the stacks of a list of table names take in the scope.\<close>

definition nested_stack_ids :: "string list \<Rightarrow> string list" where
  "nested_stack_ids ts = concat (map (\<lambda>t. [t, t @ ''.NestedStack'']) ts)"

text \<open>\<open>forEach\<close> runs the body on each entry in turn; an error thrown in the body ends the loop and the program.\<close>

fun forEach ::
  "(string list \<Rightarrow> 'a \<Rightarrow> error + ('b \<times> string list)) \<Rightarrow> 'a list \<Rightarrow> string list \<Rightarrow> error + 'b list" where
  "forEach f [] children = Inr []"
| "forEach f (x # xs) children =
     (case f children x of Inl e \<Rightarrow> Inl e
      | Inr (y, children') \<Rightarrow>
         (case forEach f xs children' of Inl e \<Rightarrow> Inl e | Inr ys \<Rightarrow> Inr (y # ys)))"

text \<open>
  The loop of the entry point. \<open>children\<close> are the ids of the constructs that the shared
  stack holds when the loop starts (it creates them in its own constructor).
\<close>

definition export_stacks :: "string list \<Rightarrow> 'a Configuration_scheme \<Rightarrow> error + 'a export_stack list" where
  "export_stacks children c =
     forEach (\<lambda>ids. new_export_stack ids c)
       (filter (\<lambda>tableName. length (trim tableName) > 0) (split CHR '','' (sourceDynamoDbTableName c)))
       children"

section \<open>Definitions for the statements\<close>

text \<open>
  The states a state can hand over to in one step: its \<open>next\<close>, the targets of its
  catchers, itself when it has a retrier, the targets of its choice rules and its default.
\<close>

definition successors :: "sm \<Rightarrow> node \<Rightarrow> node list" where
  "successors g n =
     (case kind n of
        Task \<Rightarrow> (case map_of (nexts g) n of Some t \<Rightarrow> [t] | None \<Rightarrow> [])
                 @ map snd (Catch g n) @ (if Retry g n = [] then [] else [n])
      | Choice \<Rightarrow> map snd (Choices g n) @ (case map_of (defaults g) n of Some t \<Rightarrow> [t] | None \<Rightarrow> [])
      | Pass \<Rightarrow> (case map_of (nexts g) n of Some t \<Rightarrow> [t] | None \<Rightarrow> [])
      | Wait \<Rightarrow> (case map_of (nexts g) n of Some t \<Rightarrow> [t] | None \<Rightarrow> [])
      | Succeed \<Rightarrow> []
      | Fail \<Rightarrow> [])"

definition edges :: "sm \<Rightarrow> (node \<times> node) list" where
  "edges g = concat (map (\<lambda>n. map (Pair n) (successors g n)) all_nodes)"

text \<open>Observations, for short: a task that succeeds, a task that reports an error, a choice whose input satisfies the listed conditions.\<close>

abbreviation ok :: observation where
  "ok \<equiv> \<lparr>outcome = Succeeded, holds = []\<rparr>"

abbreviation raises :: "string \<Rightarrow> observation" where
  "raises e \<equiv> \<lparr>outcome = Raised e, holds = []\<rparr>"

abbreviation finds :: "cond list \<Rightarrow> observation" where
  "finds h \<equiv> \<lparr>outcome = Succeeded, holds = h\<rparr>"



text \<open>
  The last hyphen-separated segment of a name, said directly: the longest suffix without
  a hyphen. It is compared below with what the entry point computes by \<open>split\<close>.
\<close>

definition last_hyphen_segment :: "string \<Rightarrow> string" where
  "last_hyphen_segment t = rev (takeWhile (\<lambda>x. x \<noteq> CHR ''-'') (rev t))"

text \<open>Example values, used where a statement is instantiated.\<close>

definition example_defaults :: IncrementalExportDefaults where
  "example_defaults =
     \<lparr>SDK_EXCEPTION_INTERVAL_DURATION_SECONDS = 5, SDK_EXCEPTION_RETRY_ATTEMPTS = 3, SDK_EXCEPTION_BACKOFF_RATE = 2\<rparr>"

definition example_configuration :: Configuration where
  "example_configuration =
     \<lparr>deploymentAlias = ''dev'', sourceDynamoDbTableName = ''Orders, ,prod-Users-Table'',
      dataExportBucketPrefix = ''exports'', dataExportBucketOwnerAccountId = ''123456789012'',
      incrementalExportWindowSizeInMinutes = 20\<rparr>"

section \<open>Theorems\<close>

subsection \<open>The graph that deployStepFunction builds\<close>

lemma deployStepFunction_result:
  "deployStepFunction d = Inr \<lparr>startAt = nb_getParametersTask, graph = workflow_graph d\<rparr>"
  by (simp add: deployStepFunction_def workflow_graph_def empty_sm_def
      stmt_notifyOnIncrementalExport_def stmt_setWorkflowStateParameterToPitrGap_def
      stmt_getNextIncrementalExportTimeLambdaInvoke_def stmt_setWorkflowInitiatedParameter_def
      stmt_notifyOnTaskFailed_def stmt_executeFullExport_def definition_expr_def
      state_chain_def nextable_def makeNext_def makeDefault_def connect_def
      findReachableEndStates_def outgoingTransitions_def)

lemma graph_built: "graph \<lparr>startAt = nb_getParametersTask, graph = workflow_graph d\<rparr> = workflow_graph d"
  by simp

lemma execute_eq: "execute d obs = Inr (run (workflow_graph d) obs (At nb_getParametersTask []))"
  by (simp add: execute_def deployStepFunction_result)

lemmas sem_defs = step_def take_choice_def Choices_def advance_def caught_def on_error_def Catch_def Retry_def
  renderList_def matches_def ssmSdkRetryHandler_def dynamoDbSdkRetryHandler_def

subsection \<open>One step stays on the edges of the graph\<close>

lemma first_catch_in: "first_catch cs e = Some t \<Longrightarrow> t \<in> snd ` set cs"
  by (induction cs e rule: first_catch.induct) (auto split: if_splits)

lemma first_choice_in: "first_choice rs h = Some t \<Longrightarrow> t \<in> snd ` set rs"
  by (induction rs h rule: first_choice.induct) (auto split: if_splits)

lemma find_retrier_nonempty: "find_retrier rs e i = Some x \<Longrightarrow> rs \<noteq> []"
  by (cases rs) auto

lemma advance_in: "advance g n = At t as' \<Longrightarrow> map_of (nexts g) n = Some t"
  by (auto simp: advance_def split: option.splits)

lemma caught_in: "caught g n e = At t as' \<Longrightarrow> t \<in> snd ` set (Catch g n)"
  by (auto simp: caught_def split: option.splits dest: first_catch_in)

lemma on_error_in:
  "on_error g n as e = At t as' \<Longrightarrow> t \<in> snd ` set (Catch g n) \<or> (t = n \<and> Retry g n \<noteq> [])"
  by (auto simp: on_error_def split: option.splits if_splits dest: caught_in find_retrier_nonempty)

lemma take_choice_in:
  "take_choice g n h = At t as' \<Longrightarrow> t \<in> snd ` set (Choices g n) \<or> map_of (defaults g) n = Some t"
  by (auto simp: take_choice_def split: option.splits dest: first_choice_in)

lemma step_in_successors: "step g ob n as = At t as' \<Longrightarrow> t \<in> set (successors g n)"
  unfolding step_def successors_def
  by (cases "kind n"; cases "outcome ob")
     (auto dest!: advance_in on_error_in take_choice_in)

lemma successors_edges: "t \<in> set (successors g n) \<Longrightarrow> (n, t) \<in> set (edges g)"
  using in_all_nodes [of n] by (auto simp: edges_def)

lemma step_on_edge: "step g ob n as = At t as' \<Longrightarrow> (n, t) \<in> set (edges g)"
  by (rule successors_edges) (rule step_in_successors)

lemma run_terminal: "visited (run g obs (Ended n)) = []" "visited (run g obs (Aborted n e)) = []"
  by (cases obs; simp)+

lemma run_stays:
  assumes closed: "\<And>n t. n \<in> S \<Longrightarrow> (n, t) \<in> set (edges g) \<Longrightarrow> t \<in> S"
  shows "n \<in> S \<Longrightarrow> set (visited (run g obs (At n as))) \<subseteq> S"
proof (induction obs arbitrary: n as)
  case Nil
  then show ?case by simp
next
  case (Cons ob obs)
  show ?case
  proof (cases "step g ob n as")
    case (At t as')
    then have "t \<in> S" using step_on_edge closed Cons.prems by blast
    then show ?thesis using Cons.IH [of t as'] Cons.prems At by simp
  next
    case (Ended m)
    then show ?thesis using Cons.prems by (simp add: run_terminal)
  next
    case (Aborted m e)
    then show ?thesis using Cons.prems by (simp add: run_terminal)
  qed
qed

text \<open>The edges of the workflow, written out.\<close>

lemma workflow_edges:
  "edges (workflow_graph d) = [     (nb_notifyOnIncrementalExport, nb_didIncrementalExportCompleteSuccessfully),
     (nb_notifyOnIncrementalExport, nb_notifyOnTaskFailed),
     (nb_notifyOnTaskFailed, nb_taskFailedNode),
     (nb_didIncrementalExportCompleteSuccessfully, nb_incrementalExportFailed),
     (nb_didIncrementalExportCompleteSuccessfully, nb_incrementalExportSucceeded),
     (nb_setWorkflowStateParameterToPitrGap, nb_notifyOnIncrementalExportStartTimeOutsidePitrWindow),
     (nb_setWorkflowStateParameterToPitrGap, nb_notifyOnTaskFailed),
     (nb_setWorkflowStateParameterToPitrGap, nb_setWorkflowStateParameterToPitrGap),
     (nb_notifyOnIncrementalExportStartTimeOutsidePitrWindow, nb_incrementalExportStartTimeOutsidePitrWindowFail),
     (nb_getNextIncrementalExportTimeLambdaInvoke, nb_checkIncrementalExportNeeded),
     (nb_getNextIncrementalExportTimeLambdaInvoke, nb_notifyOnTaskFailed),
     (nb_checkIncrementalExportNeeded, nb_incrementalExportNotNeeded),
     (nb_checkIncrementalExportNeeded, nb_isEarliestRestoreDateTimeValidChoice),
     (nb_isEarliestRestoreDateTimeValidChoice, nb_setWorkflowStateParameterToPitrGap),
     (nb_isEarliestRestoreDateTimeValidChoice, nb_executeIncrementalExport),
     (nb_executeIncrementalExport, nb_setLastIncrementalExportTimeParameter),
     (nb_executeIncrementalExport, nb_setWorkflowStateParameterToPitrGap),
     (nb_executeIncrementalExport, nb_notifyOnTaskFailed),
     (nb_executeIncrementalExport, nb_executeIncrementalExport),
     (nb_setLastIncrementalExportTimeParameter, nb_describeIncrementalExport),
     (nb_setLastIncrementalExportTimeParameter, nb_notifyOnTaskFailed),
     (nb_setLastIncrementalExportTimeParameter, nb_setLastIncrementalExportTimeParameter),
     (nb_describeIncrementalExport, nb_incrementalExportCompletedState),
     (nb_describeIncrementalExport, nb_notifyOnTaskFailed),
     (nb_describeIncrementalExport, nb_describeIncrementalExport),
     (nb_incrementalExportCompletedState, nb_incrementalExportParameterTrue),
     (nb_incrementalExportCompletedState, nb_incrementalExportParameterFalse),
     (nb_incrementalExportCompletedState, nb_waitForIncrementalExport),
     (nb_incrementalExportParameterTrue, nb_notifyOnIncrementalExport),
     (nb_incrementalExportParameterFalse, nb_notifyOnIncrementalExport),
     (nb_waitForIncrementalExport, nb_describeIncrementalExport),
     (nb_setWorkflowInitiatedParameter, nb_notifyOnFullExport),
     (nb_setWorkflowInitiatedParameter, nb_notifyOnTaskFailed),
     (nb_setWorkflowInitiatedParameter, nb_setWorkflowInitiatedParameter),
     (nb_notifyOnFullExport, nb_didWorkflowInitiateSuccessfully),
     (nb_notifyOnFullExport, nb_notifyOnTaskFailed),
     (nb_didWorkflowInitiateSuccessfully, nb_fullExportFailed),
     (nb_didWorkflowInitiateSuccessfully, nb_fullExportSucceeded),
     (nb_executeFullExport, nb_setFullExportTimeParameter),
     (nb_executeFullExport, nb_notifyOnTaskFailed),
     (nb_executeFullExport, nb_executeFullExport),
     (nb_setFullExportTimeParameter, nb_setWorkflowActionParameterToRun),
     (nb_setFullExportTimeParameter, nb_notifyOnTaskFailed),
     (nb_setFullExportTimeParameter, nb_setFullExportTimeParameter),
     (nb_setWorkflowActionParameterToRun, nb_setWorkflowStateParameterToNormal),
     (nb_setWorkflowActionParameterToRun, nb_setEmptyWorkflowInitiatedParameter),
     (nb_setWorkflowActionParameterToRun, nb_notifyOnTaskFailed),
     (nb_setWorkflowActionParameterToRun, nb_setWorkflowActionParameterToRun),
     (nb_setWorkflowStateParameterToNormal, nb_setEmptyWorkflowInitiatedParameter),
     (nb_setWorkflowStateParameterToNormal, nb_setEmptyWorkflowInitiatedParameter),
     (nb_setWorkflowStateParameterToNormal, nb_notifyOnTaskFailed),
     (nb_setWorkflowStateParameterToNormal, nb_setWorkflowStateParameterToNormal),
     (nb_setEmptyWorkflowInitiatedParameter, nb_deleteLastIncrementalExportTimeParameter),
     (nb_setEmptyWorkflowInitiatedParameter, nb_notifyOnTaskFailed),
     (nb_setEmptyWorkflowInitiatedParameter, nb_setEmptyWorkflowInitiatedParameter),
     (nb_deleteLastIncrementalExportTimeParameter, nb_describeFullExport),
     (nb_deleteLastIncrementalExportTimeParameter, nb_describeFullExport),
     (nb_deleteLastIncrementalExportTimeParameter, nb_notifyOnTaskFailed),
     (nb_deleteLastIncrementalExportTimeParameter, nb_deleteLastIncrementalExportTimeParameter),
     (nb_describeFullExport, nb_fullExportCompletedState),
     (nb_describeFullExport, nb_notifyOnTaskFailed),
     (nb_describeFullExport, nb_describeFullExport),
     (nb_fullExportCompletedState, nb_workflowInitializedParameterTrue),
     (nb_fullExportCompletedState, nb_workflowInitializedParameterFalse),
     (nb_fullExportCompletedState, nb_waitForFullExport),
     (nb_workflowInitializedParameterTrue, nb_setWorkflowInitiatedParameter),
     (nb_workflowInitializedParameterFalse, nb_setWorkflowInitiatedParameter),
     (nb_waitForFullExport, nb_describeFullExport),
     (nb_getParametersTask, nb_cleanParametersPassState),
     (nb_getParametersTask, nb_notifyOnTaskFailed),
     (nb_getParametersTask, nb_getParametersTask),
     (nb_cleanParametersPassState, nb_checkWorkflowAction),
     (nb_checkWorkflowAction, nb_workflowPaused),
     (nb_checkWorkflowAction, nb_ensureTableExistsTask),
     (nb_ensureTableExistsTask, nb_describeContinuousBackupsAwsServiceTask),
     (nb_ensureTableExistsTask, nb_notifyOnTaskFailed),
     (nb_ensureTableExistsTask, nb_ensureTableExistsTask),
     (nb_describeContinuousBackupsAwsServiceTask, nb_pitrEnabledChoice),
     (nb_describeContinuousBackupsAwsServiceTask, nb_notifyOnTaskFailed),
     (nb_describeContinuousBackupsAwsServiceTask, nb_describeContinuousBackupsAwsServiceTask),
     (nb_pitrEnabledChoice, nb_initializeWorkflowState),
     (nb_pitrEnabledChoice, nb_notifyOnPitrDisabled),
     (nb_initializeWorkflowState, nb_notifyOnFullExportRunning),
     (nb_initializeWorkflowState, nb_executeFullExport),
     (nb_initializeWorkflowState, nb_notifyOnPitrGap),
     (nb_initializeWorkflowState, nb_executeFullExport),
     (nb_initializeWorkflowState, nb_isLastIncrementalExportParameterValid),
     (nb_notifyOnFullExportRunning, nb_fullExportStillRunning),
     (nb_notifyOnFullExportRunning, nb_notifyOnTaskFailed),
     (nb_notifyOnPitrGap, nb_pitrGapFound),
     (nb_notifyOnPitrGap, nb_notifyOnTaskFailed),
     (nb_isLastIncrementalExportParameterValid, nb_useLastIncrementalExportTimeParameterValue),
     (nb_isLastIncrementalExportParameterValid, nb_useFullExportTimeParameterValue),
     (nb_useLastIncrementalExportTimeParameterValue, nb_getNextIncrementalExportTimeLambdaInvoke),
     (nb_useFullExportTimeParameterValue, nb_getNextIncrementalExportTimeLambdaInvoke),
     (nb_notifyOnPitrDisabled, nb_pitrDisabledFail),
     (nb_notifyOnPitrDisabled, nb_notifyOnTaskFailed)]"
  by (simp add: edges_def all_nodes_def successors_def sem_defs workflow_graph_def)

subsection \<open>Single steps of the workflow\<close>

lemma step_checkWorkflowAction:
  "step (workflow_graph d) ob nb_checkWorkflowAction as =
     (if cb_isWorkflowPaused \<in> set (holds ob) then At nb_workflowPaused []
      else At nb_ensureTableExistsTask [])"
  by (simp add: sem_defs workflow_graph_def)

lemma step_pitrEnabledChoice:
  "step (workflow_graph d) ob nb_pitrEnabledChoice as =
     (if cb_pitrIsEnabled \<in> set (holds ob) then At nb_initializeWorkflowState []
      else At nb_notifyOnPitrDisabled [])"
  by (simp add: sem_defs workflow_graph_def)

lemma step_initializeWorkflowState:
  "step (workflow_graph d) ob nb_initializeWorkflowState as =
     (if cb_fullExportStillRunning \<in> set (holds ob) then At nb_notifyOnFullExportRunning []
      else if cb_resetWithFullExportAgain \<in> set (holds ob) then At nb_executeFullExport []
      else if cb_pitrGapWorkflowState \<in> set (holds ob) then At nb_notifyOnPitrGap []
      else if cb_executeFullExport \<in> set (holds ob) then At nb_executeFullExport []
      else At nb_isLastIncrementalExportParameterValid [])"
  by (simp add: sem_defs workflow_graph_def)

lemma step_isLastIncrementalExportParameterValid:
  "step (workflow_graph d) ob nb_isLastIncrementalExportParameterValid as =
     (if cb_lastIncrementalExportTimeIsValid \<in> set (holds ob)
      then At nb_useLastIncrementalExportTimeParameterValue []
      else At nb_useFullExportTimeParameterValue [])"
  by (simp add: sem_defs workflow_graph_def)

lemma step_useLastIncrementalExportTimeParameterValue:
  "step (workflow_graph d) ob nb_useLastIncrementalExportTimeParameterValue as =
     At nb_getNextIncrementalExportTimeLambdaInvoke []"
  by (simp add: sem_defs workflow_graph_def)

lemma step_useFullExportTimeParameterValue:
  "step (workflow_graph d) ob nb_useFullExportTimeParameterValue as =
     At nb_getNextIncrementalExportTimeLambdaInvoke []"
  by (simp add: sem_defs workflow_graph_def)

lemma step_notifyOnFullExportRunning:
  "step (workflow_graph d) ok nb_notifyOnFullExportRunning as = At nb_fullExportStillRunning []"
  by (simp add: sem_defs workflow_graph_def)

lemma step_notifyOnPitrGap:
  "step (workflow_graph d) ok nb_notifyOnPitrGap as = At nb_pitrGapFound []"
  by (simp add: sem_defs workflow_graph_def)

lemma step_notifyOnPitrDisabled:
  "step (workflow_graph d) ok nb_notifyOnPitrDisabled as = At nb_pitrDisabledFail []"
  by (simp add: sem_defs workflow_graph_def)

lemma step_ends:
  "step g ob nb_fullExportStillRunning as = Ended nb_fullExportStillRunning"
  "step g ob nb_pitrGapFound as = Ended nb_pitrGapFound"
  "step g ob nb_pitrDisabledFail as = Ended nb_pitrDisabledFail"
  "step g ob nb_workflowPaused as = Ended nb_workflowPaused"
  "step g ob nb_taskFailedNode as = Ended nb_taskFailedNode"
  "step g ob nb_incrementalExportNotNeeded as = Ended nb_incrementalExportNotNeeded"
  "step g ob nb_incrementalExportStartTimeOutsidePitrWindowFail as =
     Ended nb_incrementalExportStartTimeOutsidePitrWindowFail"
  by (simp_all add: step_def)

lemma step_checkIncrementalExportNeeded:
  "step (workflow_graph d) ob nb_checkIncrementalExportNeeded as =
     (if cb_nextIncrementalExportEndTimeIsPastCurrentTime \<in> set (holds ob)
      then At nb_incrementalExportNotNeeded []
      else At nb_isEarliestRestoreDateTimeValidChoice [])"
  by (simp add: sem_defs workflow_graph_def)

lemma step_isEarliestRestoreDateTimeValidChoice:
  "step (workflow_graph d) ob nb_isEarliestRestoreDateTimeValidChoice as =
     (if cb_earliestRestoreDateTimeIsGreaterThanExportStartTime \<in> set (holds ob)
      then At nb_setWorkflowStateParameterToPitrGap []
      else At nb_executeIncrementalExport [])"
  by (simp add: sem_defs workflow_graph_def)

lemma step_setWorkflowStateParameterToPitrGap:
  "step (workflow_graph d) ok nb_setWorkflowStateParameterToPitrGap as =
     At nb_notifyOnIncrementalExportStartTimeOutsidePitrWindow []"
  by (simp add: sem_defs workflow_graph_def)

lemma step_notifyOnIncrementalExportStartTimeOutsidePitrWindow:
  "step (workflow_graph d) ob nb_notifyOnIncrementalExportStartTimeOutsidePitrWindow as =
     (case outcome ob of
        Succeeded \<Rightarrow> At nb_incrementalExportStartTimeOutsidePitrWindowFail []
      | Raised e \<Rightarrow> Aborted nb_notifyOnIncrementalExportStartTimeOutsidePitrWindow e)"
  by (simp add: sem_defs workflow_graph_def split: outcome.splits)


lemma on_error_setWorkflowStateParameterToPitrGap:
  "on_error (workflow_graph d) nb_setWorkflowStateParameterToPitrGap as e =
     (if e = ''Ssm.SdkClientException'' \<and> attempts_of as 0 < SDK_EXCEPTION_RETRY_ATTEMPTS d
      then At nb_setWorkflowStateParameterToPitrGap (bump as 0)
      else At nb_notifyOnTaskFailed [])"
  by (simp add: sem_defs workflow_graph_def)

lemma Retry_executeIncrementalExport:
  "Retry (workflow_graph d) nb_executeIncrementalExport =
     [\<lparr>errors = [''DynamoDb.InvalidExportTimeException''], interval = 60, maxAttempts = 2, backoffRate = 1\<rparr>,
      dynamoDbSdkRetryHandler d]"
  by (simp add: sem_defs workflow_graph_def)

lemma Catch_executeIncrementalExport:
  "Catch (workflow_graph d) nb_executeIncrementalExport =
     [([''DynamoDb.InvalidExportTimeException''], nb_setWorkflowStateParameterToPitrGap),
      ([''States.ALL''], nb_notifyOnTaskFailed)]"
  by (simp add: sem_defs workflow_graph_def)

lemma on_error_executeIncrementalExport:
  "on_error (workflow_graph d) nb_executeIncrementalExport as ''DynamoDb.InvalidExportTimeException'' =
     (if attempts_of as 0 < 2 then At nb_executeIncrementalExport (bump as 0)
      else At nb_setWorkflowStateParameterToPitrGap [])"
  by (simp add: on_error_def caught_def matches_def Retry_executeIncrementalExport
      Catch_executeIncrementalExport)

lemma step_executeIncrementalExport_raise:
  "step g (raises e) nb_executeIncrementalExport as = on_error g nb_executeIncrementalExport as e"
  by (simp add: step_def)

lemma invalid_export_time_delay:
  "retry_delay \<lparr>errors = [''DynamoDb.InvalidExportTimeException''], interval = 60, maxAttempts = 2,
      backoffRate = 1\<rparr> k = 60"
  by (simp add: retry_delay_def)

lemma run_invalid_export_time:
  "run (workflow_graph d)
     [raises ''DynamoDb.InvalidExportTimeException'', raises ''DynamoDb.InvalidExportTimeException'',
      raises ''DynamoDb.InvalidExportTimeException'', ok, ok, ok]
     (At nb_executeIncrementalExport []) =
   [At nb_executeIncrementalExport [], At nb_executeIncrementalExport [1], At nb_executeIncrementalExport [2],
    At nb_setWorkflowStateParameterToPitrGap [],
    At nb_notifyOnIncrementalExportStartTimeOutsidePitrWindow [],
    At nb_incrementalExportStartTimeOutsidePitrWindowFail [],
    Ended nb_incrementalExportStartTimeOutsidePitrWindowFail]"
  by (simp add: step_executeIncrementalExport_raise on_error_executeIncrementalExport
      attempts_of_def bump_def
      step_setWorkflowStateParameterToPitrGap step_notifyOnIncrementalExportStartTimeOutsidePitrWindow
      step_ends)

lemma on_error_setWorkflowActionParameterToRun:
  "on_error (workflow_graph d) nb_setWorkflowActionParameterToRun as e =
     (if e = ''Ssm.ParameterNotFoundException'' then At nb_setEmptyWorkflowInitiatedParameter []
      else if e = ''Ssm.SdkClientException'' \<and> attempts_of as 0 < SDK_EXCEPTION_RETRY_ATTEMPTS d
        then At nb_setWorkflowActionParameterToRun (bump as 0)
      else At nb_notifyOnTaskFailed [])"
  by (simp add: sem_defs workflow_graph_def)

lemma on_error_setWorkflowStateParameterToNormal:
  "on_error (workflow_graph d) nb_setWorkflowStateParameterToNormal as e =
     (if e = ''Ssm.ParameterNotFoundException'' then At nb_setEmptyWorkflowInitiatedParameter []
      else if e = ''Ssm.SdkClientException'' \<and> attempts_of as 0 < SDK_EXCEPTION_RETRY_ATTEMPTS d
        then At nb_setWorkflowStateParameterToNormal (bump as 0)
      else At nb_notifyOnTaskFailed [])"
  by (simp add: sem_defs workflow_graph_def)

lemma on_error_deleteLastIncrementalExportTimeParameter:
  "on_error (workflow_graph d) nb_deleteLastIncrementalExportTimeParameter as e =
     (if e = ''Ssm.ParameterNotFoundException'' then At nb_describeFullExport []
      else if e = ''Ssm.SdkClientException'' \<and> attempts_of as 0 < SDK_EXCEPTION_RETRY_ATTEMPTS d
        then At nb_deleteLastIncrementalExportTimeParameter (bump as 0)
      else At nb_notifyOnTaskFailed [])"
  by (simp add: sem_defs workflow_graph_def)

lemma step_full_export_writes:
  "step (workflow_graph d) ok nb_setWorkflowActionParameterToRun as = At nb_setWorkflowStateParameterToNormal []"
  "step (workflow_graph d) ok nb_setWorkflowStateParameterToNormal as = At nb_setEmptyWorkflowInitiatedParameter []"
  "step (workflow_graph d) ok nb_setEmptyWorkflowInitiatedParameter as =
     At nb_deleteLastIncrementalExportTimeParameter []"
  "step (workflow_graph d) ok nb_deleteLastIncrementalExportTimeParameter as = At nb_describeFullExport []"
  by (simp_all add: sem_defs workflow_graph_def)

lemma step_start:
  "step (workflow_graph d) ok nb_getParametersTask [] = At nb_cleanParametersPassState []"
  "step (workflow_graph d) ok nb_cleanParametersPassState [] = At nb_checkWorkflowAction []"
  "step (workflow_graph d) ok nb_ensureTableExistsTask [] = At nb_describeContinuousBackupsAwsServiceTask []"
  "step (workflow_graph d) ok nb_describeContinuousBackupsAwsServiceTask [] = At nb_pitrEnabledChoice []"
  "step (workflow_graph d) ok nb_getNextIncrementalExportTimeLambdaInvoke [] = At nb_checkIncrementalExportNeeded []"
  by (simp_all add: sem_defs workflow_graph_def)


subsection \<open>Predecessors, read off the edges\<close>







lemma pitr_gap_closed:
  "n \<in> {nb_setWorkflowStateParameterToPitrGap, nb_notifyOnIncrementalExportStartTimeOutsidePitrWindow,
         nb_incrementalExportStartTimeOutsidePitrWindowFail, nb_notifyOnTaskFailed, nb_taskFailedNode} \<Longrightarrow>
   (n, t) \<in> set (edges (workflow_graph d)) \<Longrightarrow>
   t \<in> {nb_setWorkflowStateParameterToPitrGap, nb_notifyOnIncrementalExportStartTimeOutsidePitrWindow,
         nb_incrementalExportStartTimeOutsidePitrWindowFail, nb_notifyOnTaskFailed, nb_taskFailedNode}"
  by (auto simp: workflow_edges)

lemma pitr_gap_no_export:
  "nb_executeIncrementalExport \<notin>
     set (visited (run (workflow_graph d) obs (At nb_setWorkflowStateParameterToPitrGap as)))
   \<and> nb_executeFullExport \<notin>
     set (visited (run (workflow_graph d) obs (At nb_setWorkflowStateParameterToPitrGap as)))"
proof -
  let ?S = "{nb_setWorkflowStateParameterToPitrGap, nb_notifyOnIncrementalExportStartTimeOutsidePitrWindow,
         nb_incrementalExportStartTimeOutsidePitrWindowFail, nb_notifyOnTaskFailed, nb_taskFailedNode}"
  have c: "\<And>n t. n \<in> ?S \<Longrightarrow> (n, t) \<in> set (edges (workflow_graph d)) \<Longrightarrow> t \<in> ?S"
    by (rule pitr_gap_closed)
  have "nb_setWorkflowStateParameterToPitrGap \<in> ?S" by simp
  from run_stays [of ?S "workflow_graph d", OF c this]
  have "set (visited (run (workflow_graph d) obs (At nb_setWorkflowStateParameterToPitrGap as))) \<subseteq> ?S" .
  then show ?thesis by auto
qed

subsection \<open>Runs from the states a cycle ends at\<close>

lemma run_taskFailedNode: "visited (run g obs (At nb_taskFailedNode as)) = [nb_taskFailedNode]"
  by (cases obs) (simp_all add: step_ends run_terminal)


subsection \<open>Runs taken apart\<close>

lemma run_nonempty: "run g obs x \<noteq> []"
  by (cases obs; cases x) simp_all

lemma run_Ended: "run g obs (Ended n) = [Ended n]"
  by (cases obs) simp_all

lemma run_Aborted: "run g obs (Aborted n e) = [Aborted n e]"
  by (cases obs) simp_all

lemma run_append: "run g (pre @ post) x = butlast (run g pre x) @ run g post (last (run g pre x))"
proof (induction pre arbitrary: x)
  case Nil
  then show ?case by simp
next
  case (Cons ob pre)
  show ?case
  proof (cases x)
    case (At n as)
    then show ?thesis using Cons.IH [of "step g ob n as"] by (simp add: run_nonempty)
  next
    case (Ended n)
    then show ?thesis by (simp add: run_Ended)
  next
    case (Aborted n e)
    then show ?thesis by (simp add: run_Aborted)
  qed
qed

lemma visited_append: "visited (xs @ ys) = visited xs @ visited ys"
  by (induction xs rule: visited.induct) simp_all

lemma visited_butlast: "set (visited (butlast xs)) \<subseteq> set (visited xs)"
proof (cases "xs = []")
  case True
  then show ?thesis by simp
next
  case False
  then have "visited xs = visited (butlast xs) @ visited [last xs]"
    using visited_append [of "butlast xs" "[last xs]"] by simp
  then show ?thesis by simp
qed

lemma run_first: "n \<in> set (visited (run g obs (At n as)))"
  by (cases obs) simp_all

text \<open>
  A set of states that is closed under going back along the edges holds every state of a
  run that has arrived in it.
\<close>

lemma run_came_from:
  assumes closed: "\<And>n t. t \<in> S \<Longrightarrow> (n, t) \<in> set (edges g) \<Longrightarrow> n \<in> S"
  shows "last (run g pre (At n as)) = At t as' \<Longrightarrow> t \<in> S \<Longrightarrow>
         set (visited (run g pre (At n as))) \<subseteq> S"
proof (induction pre arbitrary: n as)
  case Nil
  then show ?case by simp
next
  case (Cons ob pre)
  show ?case
  proof (cases "step g ob n as")
    case (At m as'')
    then have l: "last (run g pre (At m as'')) = At t as'"
      using Cons.prems(1) by (simp add: run_nonempty)
    from Cons.IH [OF l Cons.prems(2)] have v: "set (visited (run g pre (At m as''))) \<subseteq> S" .
    then have "m \<in> S" using run_first [of m g pre as''] by blast
    then have "n \<in> S" using closed step_on_edge [OF At] by blast
    then show ?thesis using v At by simp
  next
    case (Ended m)
    then show ?thesis using Cons.prems(1) by (simp add: run_Ended)
  next
    case (Aborted m e)
    then show ?thesis using Cons.prems(1) by (simp add: run_Aborted)
  qed
qed

text \<open>The states a cycle passes before the two checks of the incremental export path.\<close>

lemma before_the_checks:
  "t \<in> {nb_getParametersTask, nb_cleanParametersPassState, nb_checkWorkflowAction, nb_ensureTableExistsTask,
         nb_describeContinuousBackupsAwsServiceTask, nb_pitrEnabledChoice, nb_initializeWorkflowState,
         nb_isLastIncrementalExportParameterValid, nb_useLastIncrementalExportTimeParameterValue,
         nb_useFullExportTimeParameterValue, nb_getNextIncrementalExportTimeLambdaInvoke,
         nb_checkIncrementalExportNeeded, nb_isEarliestRestoreDateTimeValidChoice} \<Longrightarrow>
   (n, t) \<in> set (edges (workflow_graph d)) \<Longrightarrow>
   n \<in> {nb_getParametersTask, nb_cleanParametersPassState, nb_checkWorkflowAction, nb_ensureTableExistsTask,
         nb_describeContinuousBackupsAwsServiceTask, nb_pitrEnabledChoice, nb_initializeWorkflowState,
         nb_isLastIncrementalExportParameterValid, nb_useLastIncrementalExportTimeParameterValue,
         nb_useFullExportTimeParameterValue, nb_getNextIncrementalExportTimeLambdaInvoke,
         nb_checkIncrementalExportNeeded, nb_isEarliestRestoreDateTimeValidChoice}"
  by (auto simp: workflow_edges)

lemma no_export_before_the_checks:
  assumes "last (run (workflow_graph d) pre (At nb_getParametersTask [])) = At t as"
    and "t = nb_checkIncrementalExportNeeded \<or> t = nb_isEarliestRestoreDateTimeValidChoice"
  shows "nb_executeIncrementalExport \<notin> set (visited (butlast (run (workflow_graph d) pre (At nb_getParametersTask []))))
    \<and> nb_executeFullExport \<notin> set (visited (butlast (run (workflow_graph d) pre (At nb_getParametersTask []))))"
proof -
  let ?B = "{nb_getParametersTask, nb_cleanParametersPassState, nb_checkWorkflowAction, nb_ensureTableExistsTask,
         nb_describeContinuousBackupsAwsServiceTask, nb_pitrEnabledChoice, nb_initializeWorkflowState,
         nb_isLastIncrementalExportParameterValid, nb_useLastIncrementalExportTimeParameterValue,
         nb_useFullExportTimeParameterValue, nb_getNextIncrementalExportTimeLambdaInvoke,
         nb_checkIncrementalExportNeeded, nb_isEarliestRestoreDateTimeValidChoice}"
  have bk: "\<And>n t. t \<in> ?B \<Longrightarrow> (n, t) \<in> set (edges (workflow_graph d)) \<Longrightarrow> n \<in> ?B"
    by (rule before_the_checks)
  have "t \<in> ?B" using assms(2) by auto
  from run_came_from [of ?B "workflow_graph d", OF bk assms(1) this]
  have "set (visited (run (workflow_graph d) pre (At nb_getParametersTask []))) \<subseteq> ?B" .
  then have "set (visited (butlast (run (workflow_graph d) pre (At nb_getParametersTask [])))) \<subseteq> ?B"
    using visited_butlast by blast
  then show ?thesis by auto
qed

lemma whole_cycle_pitr_gap:
  assumes l: "last (run (workflow_graph d) pre (At nb_getParametersTask [])) =
      At nb_isEarliestRestoreDateTimeValidChoice as"
    and h: "cb_earliestRestoreDateTimeIsGreaterThanExportStartTime \<in> set (holds ob)"
  shows "nb_executeIncrementalExport \<notin>
      set (visited (run (workflow_graph d) (pre @ ob # post) (At nb_getParametersTask [])))
    \<and> nb_executeFullExport \<notin>
      set (visited (run (workflow_graph d) (pre @ ob # post) (At nb_getParametersTask [])))"
proof -
  have r: "run (workflow_graph d) (pre @ ob # post) (At nb_getParametersTask []) =
      butlast (run (workflow_graph d) pre (At nb_getParametersTask []))
      @ At nb_isEarliestRestoreDateTimeValidChoice as
      # run (workflow_graph d) post (At nb_setWorkflowStateParameterToPitrGap [])"
    using h by (simp add: run_append l step_isEarliestRestoreDateTimeValidChoice)
  show ?thesis
    unfolding r visited_append
    using no_export_before_the_checks [OF l] pitr_gap_no_export [of d post "[]"] by simp
qed




lemma step_incremental_writes:
  "step (workflow_graph d) ok nb_setLastIncrementalExportTimeParameter [] = At nb_describeIncrementalExport []"
  "step (workflow_graph d) ok nb_describeIncrementalExport [] = At nb_incrementalExportCompletedState []"
  "step (workflow_graph d) ok nb_describeFullExport [] = At nb_fullExportCompletedState []"
  by (simp_all add: sem_defs workflow_graph_def)

lemma run_to_the_pitr_check:
  "run (workflow_graph d)
     [ok, ok, ok, ok, ok, finds [cb_pitrIsEnabled], ok, finds [cb_lastIncrementalExportTimeIsValid], ok, ok, ok]
     (At nb_getParametersTask []) =
   [At nb_getParametersTask [], At nb_cleanParametersPassState [], At nb_checkWorkflowAction [],
    At nb_ensureTableExistsTask [], At nb_describeContinuousBackupsAwsServiceTask [],
    At nb_pitrEnabledChoice [], At nb_initializeWorkflowState [],
    At nb_isLastIncrementalExportParameterValid [], At nb_useLastIncrementalExportTimeParameterValue [],
    At nb_getNextIncrementalExportTimeLambdaInvoke [], At nb_checkIncrementalExportNeeded [],
    At nb_isEarliestRestoreDateTimeValidChoice []]"
  by (simp add: step_start step_checkWorkflowAction step_pitrEnabledChoice
      step_initializeWorkflowState step_isLastIncrementalExportParameterValid
      step_useLastIncrementalExportTimeParameterValue step_checkIncrementalExportNeeded)


lemma step_exports_retried:
  "step (workflow_graph d) ok nb_executeIncrementalExport as = At nb_setLastIncrementalExportTimeParameter []"
  by (simp add: sem_defs workflow_graph_def)

subsection \<open>The branch after the PITR check (C1)\<close>

text \<open>
  Claim C1. Once the workflow reaches the PITR-enabled choice, exactly one branch is
  taken, and the conditions are tried in a fixed order: PITR disabled goes to the
  PITR-disabled notification; else (1) full export still running, (2) reset with full
  export again goes to the full export, (3) PITR gap goes to the PITR-gap notification,
  (4) workflow not initiated goes to the full export, (5) otherwise the incremental
  export path, whose two ways both lead to the time computation. The step is a function
  of the conditions that hold, so the branches are exhaustive and do not overlap; the
  earlier choice on the workflow action ends the cycle as paused. The notifications of
  the branches lead to states the cycle ends at.
\<close>

theorem C1_branch_priority:
  "\<exists>M. deployStepFunction d = Inr M \<and>
     step (graph M) ob nb_checkWorkflowAction as =
       (if cb_isWorkflowPaused \<in> set (holds ob) then At nb_workflowPaused []
        else At nb_ensureTableExistsTask []) \<and>
     step (graph M) ob nb_pitrEnabledChoice as =
       (if cb_pitrIsEnabled \<in> set (holds ob) then At nb_initializeWorkflowState []
        else At nb_notifyOnPitrDisabled []) \<and>
     step (graph M) ob nb_initializeWorkflowState as =
       (if cb_fullExportStillRunning \<in> set (holds ob) then At nb_notifyOnFullExportRunning []
        else if cb_resetWithFullExportAgain \<in> set (holds ob) then At nb_executeFullExport []
        else if cb_pitrGapWorkflowState \<in> set (holds ob) then At nb_notifyOnPitrGap []
        else if cb_executeFullExport \<in> set (holds ob) then At nb_executeFullExport []
        else At nb_isLastIncrementalExportParameterValid []) \<and>
     step (graph M) ob nb_isLastIncrementalExportParameterValid as =
       (if cb_lastIncrementalExportTimeIsValid \<in> set (holds ob)
        then At nb_useLastIncrementalExportTimeParameterValue []
        else At nb_useFullExportTimeParameterValue []) \<and>
     step (graph M) ob nb_useLastIncrementalExportTimeParameterValue as =
       At nb_getNextIncrementalExportTimeLambdaInvoke [] \<and>
     step (graph M) ob nb_useFullExportTimeParameterValue as =
       At nb_getNextIncrementalExportTimeLambdaInvoke [] \<and>
     step (graph M) ok nb_notifyOnFullExportRunning as = At nb_fullExportStillRunning [] \<and>
     step (graph M) ob nb_fullExportStillRunning as = Ended nb_fullExportStillRunning \<and>
     step (graph M) ok nb_notifyOnPitrGap as = At nb_pitrGapFound [] \<and>
     step (graph M) ob nb_pitrGapFound as = Ended nb_pitrGapFound \<and>
     step (graph M) ok nb_notifyOnPitrDisabled as = At nb_pitrDisabledFail [] \<and>
     step (graph M) ob nb_pitrDisabledFail as = Ended nb_pitrDisabledFail \<and>
     step (graph M) ob nb_workflowPaused as = Ended nb_workflowPaused"
  by (rule exI [of _ "\<lparr>startAt = nb_getParametersTask, graph = workflow_graph d\<rparr>"])
     (simp only: deployStepFunction_result graph_built step_checkWorkflowAction step_pitrEnabledChoice
        step_initializeWorkflowState step_isLastIncrementalExportParameterValid
        step_useLastIncrementalExportTimeParameterValue step_useFullExportTimeParameterValue
        step_notifyOnFullExportRunning step_notifyOnPitrGap step_notifyOnPitrDisabled step_ends simp_thms)

subsection \<open>Watermark writes and completion (C2)\<close>




subsection \<open>The catch-all and Notify-And-Fail (C3)\<close>

text \<open>
  Claim C3. Every task step has a catch-all routed to Notify-And-Fail, so a fault in any
  task is notified before the cycle ends as failed.

  The code misses this at one step. The step that publishes the "start time outside PITR
  window" notification is a task wired with \<open>next\<close> only: it has no catcher, and when it
  reports an error the execution fails there without Notify-And-Fail being run, as the
  run below shows. The five other notification steps of the workflow each carry the
  catch-all to Notify-And-Fail.
\<close>

theorem C3_uncaught_notification_fault:
  "\<exists>M. deployStepFunction example_defaults = Inr M \<and>
     kind nb_notifyOnIncrementalExportStartTimeOutsidePitrWindow = Task \<and>
     Catch (graph M) nb_notifyOnIncrementalExportStartTimeOutsidePitrWindow = [] \<and>
     run (graph M)
       [ok, ok, ok, ok, ok, finds [cb_pitrIsEnabled], ok, finds [cb_lastIncrementalExportTimeIsValid], ok, ok, ok,
        finds [cb_earliestRestoreDateTimeIsGreaterThanExportStartTime], ok, raises ''Sns.InternalErrorException'']
       (At (startAt M) []) =
       [At nb_getParametersTask [], At nb_cleanParametersPassState [], At nb_checkWorkflowAction [],
        At nb_ensureTableExistsTask [], At nb_describeContinuousBackupsAwsServiceTask [],
        At nb_pitrEnabledChoice [], At nb_initializeWorkflowState [],
        At nb_isLastIncrementalExportParameterValid [], At nb_useLastIncrementalExportTimeParameterValue [],
        At nb_getNextIncrementalExportTimeLambdaInvoke [], At nb_checkIncrementalExportNeeded [],
        At nb_isEarliestRestoreDateTimeValidChoice [], At nb_setWorkflowStateParameterToPitrGap [],
        At nb_notifyOnIncrementalExportStartTimeOutsidePitrWindow [],
        Aborted nb_notifyOnIncrementalExportStartTimeOutsidePitrWindow ''Sns.InternalErrorException''] \<and>
     Catch (graph M) nb_notifyOnIncrementalExport = [([''States.ALL''], nb_notifyOnTaskFailed)] \<and>
     Catch (graph M) nb_notifyOnFullExport = [([''States.ALL''], nb_notifyOnTaskFailed)] \<and>
     Catch (graph M) nb_notifyOnFullExportRunning = [([''States.ALL''], nb_notifyOnTaskFailed)] \<and>
     Catch (graph M) nb_notifyOnPitrGap = [([''States.ALL''], nb_notifyOnTaskFailed)] \<and>
     Catch (graph M) nb_notifyOnPitrDisabled = [([''States.ALL''], nb_notifyOnTaskFailed)]"
proof -
  have c: "Catch (workflow_graph example_defaults) nb_notifyOnIncrementalExportStartTimeOutsidePitrWindow = []"
    "Catch (workflow_graph example_defaults) nb_notifyOnIncrementalExport =
       [([''States.ALL''], nb_notifyOnTaskFailed)]"
    "Catch (workflow_graph example_defaults) nb_notifyOnFullExport = [([''States.ALL''], nb_notifyOnTaskFailed)]"
    "Catch (workflow_graph example_defaults) nb_notifyOnFullExportRunning =
       [([''States.ALL''], nb_notifyOnTaskFailed)]"
    "Catch (workflow_graph example_defaults) nb_notifyOnPitrGap = [([''States.ALL''], nb_notifyOnTaskFailed)]"
    "Catch (workflow_graph example_defaults) nb_notifyOnPitrDisabled = [([''States.ALL''], nb_notifyOnTaskFailed)]"
    by (simp_all add: Catch_def renderList_def workflow_graph_def)
  have r: "run (workflow_graph example_defaults)
       [ok, ok, ok, ok, ok, finds [cb_pitrIsEnabled], ok, finds [cb_lastIncrementalExportTimeIsValid], ok, ok, ok,
        finds [cb_earliestRestoreDateTimeIsGreaterThanExportStartTime], ok, raises ''Sns.InternalErrorException'']
       (At nb_getParametersTask []) =
       [At nb_getParametersTask [], At nb_cleanParametersPassState [], At nb_checkWorkflowAction [],
        At nb_ensureTableExistsTask [], At nb_describeContinuousBackupsAwsServiceTask [],
        At nb_pitrEnabledChoice [], At nb_initializeWorkflowState [],
        At nb_isLastIncrementalExportParameterValid [], At nb_useLastIncrementalExportTimeParameterValue [],
        At nb_getNextIncrementalExportTimeLambdaInvoke [], At nb_checkIncrementalExportNeeded [],
        At nb_isEarliestRestoreDateTimeValidChoice [], At nb_setWorkflowStateParameterToPitrGap [],
        At nb_notifyOnIncrementalExportStartTimeOutsidePitrWindow [],
        Aborted nb_notifyOnIncrementalExportStartTimeOutsidePitrWindow ''Sns.InternalErrorException'']"
    by (simp add: step_start step_checkWorkflowAction step_pitrEnabledChoice
      step_initializeWorkflowState step_isLastIncrementalExportParameterValid
      step_useLastIncrementalExportTimeParameterValue step_checkIncrementalExportNeeded
      step_isEarliestRestoreDateTimeValidChoice step_setWorkflowStateParameterToPitrGap
      step_notifyOnIncrementalExportStartTimeOutsidePitrWindow)
  show ?thesis
    by (rule exI [of _ "\<lparr>startAt = nb_getParametersTask, graph = workflow_graph example_defaults\<rparr>"])
       (simp only: deployStepFunction_result graph_built machine.select_convs c r kind.simps simp_thms)
qed

subsection \<open>The "invalid export time" race (C4)\<close>

text \<open>
  Claim C4, as the spec states it: when the incremental-export invocation fails with an
  "invalid export time" error, the whole sub-path is retried up to 2 times with a fixed
  1-minute spacing, and on persistent failure the workflow falls back to the PITR_GAP
  path.

  The whole sub-path is not retried. The retrier is attached to the export invocation
  alone: in the run below the invocation reports the error once and is run again (with
  one retry counted); the time computation and the two checks before it are each run
  once.
\<close>

theorem C4_counterexample:
  "execute example_defaults
     [ok, ok, ok, ok, ok, finds [cb_pitrIsEnabled], ok, finds [cb_lastIncrementalExportTimeIsValid], ok, ok, ok,
      ok, raises ''DynamoDb.InvalidExportTimeException'', ok, ok] =
   Inr [At nb_getParametersTask [], At nb_cleanParametersPassState [], At nb_checkWorkflowAction [],
        At nb_ensureTableExistsTask [], At nb_describeContinuousBackupsAwsServiceTask [],
        At nb_pitrEnabledChoice [], At nb_initializeWorkflowState [],
        At nb_isLastIncrementalExportParameterValid [], At nb_useLastIncrementalExportTimeParameterValue [],
        At nb_getNextIncrementalExportTimeLambdaInvoke [], At nb_checkIncrementalExportNeeded [],
        At nb_isEarliestRestoreDateTimeValidChoice [],
        At nb_executeIncrementalExport [], At nb_executeIncrementalExport [1],
        At nb_setLastIncrementalExportTimeParameter [], At nb_describeIncrementalExport []]"
  by (simp add: execute_eq step_start step_checkWorkflowAction step_pitrEnabledChoice
      step_initializeWorkflowState step_isLastIncrementalExportParameterValid
      step_useLastIncrementalExportTimeParameterValue step_checkIncrementalExportNeeded
      step_isEarliestRestoreDateTimeValidChoice step_executeIncrementalExport_raise
      on_error_executeIncrementalExport attempts_of_def bump_def step_exports_retried
      step_incremental_writes)

text \<open>
  Claim C4, amended: when the incremental-export invocation reports
  \<open>DynamoDb.InvalidExportTimeException\<close>, the invocation step itself is run again, at most
  2 times, each time after 60 seconds (the backoff rate is 1); when the error is reported
  once more, the workflow sets WorkflowState to PITR_GAP, publishes the notification and
  ends at the fail state of the PITR gap, not through Notify-And-Fail. (The catcher of
  this error was added after the catch-all; the rendering puts the catch-all last.)
\<close>

theorem C4_invalid_export_time:
  "\<exists>M. deployStepFunction d = Inr M \<and>
     Retry (graph M) nb_executeIncrementalExport =
       [\<lparr>errors = [''DynamoDb.InvalidExportTimeException''], interval = 60, maxAttempts = 2, backoffRate = 1\<rparr>,
        dynamoDbSdkRetryHandler d] \<and>
     (\<forall>k. retry_delay \<lparr>errors = [''DynamoDb.InvalidExportTimeException''], interval = 60, maxAttempts = 2,
              backoffRate = 1\<rparr> k = 60) \<and>
     (\<forall>as. on_error (graph M) nb_executeIncrementalExport as ''DynamoDb.InvalidExportTimeException'' =
         (if attempts_of as 0 < 2 then At nb_executeIncrementalExport (bump as 0)
          else At nb_setWorkflowStateParameterToPitrGap [])) \<and>
     run (graph M)
       [raises ''DynamoDb.InvalidExportTimeException'', raises ''DynamoDb.InvalidExportTimeException'',
        raises ''DynamoDb.InvalidExportTimeException'', ok, ok, ok]
       (At nb_executeIncrementalExport []) =
       [At nb_executeIncrementalExport [], At nb_executeIncrementalExport [1], At nb_executeIncrementalExport [2],
        At nb_setWorkflowStateParameterToPitrGap [],
        At nb_notifyOnIncrementalExportStartTimeOutsidePitrWindow [],
        At nb_incrementalExportStartTimeOutsidePitrWindowFail [],
        Ended nb_incrementalExportStartTimeOutsidePitrWindowFail] \<and>
     kind nb_incrementalExportStartTimeOutsidePitrWindowFail = Fail"
  by (rule exI [of _ "\<lparr>startAt = nb_getParametersTask, graph = workflow_graph d\<rparr>"])
     (simp only: deployStepFunction_result graph_built Retry_executeIncrementalExport
        invalid_export_time_delay on_error_executeIncrementalExport run_invalid_export_time
        kind.simps simp_thms)

subsection \<open>The start time before the PITR window (C5)\<close>

text \<open>
  Claim C5. In the incremental export path, once the cycle has come to the check of the
  earliest restorable time (the window-end check before it has not ended the cycle), if
  the export start time is before the earliest restorable time, the controller sets
  WorkflowState to PITR_GAP, publishes the "start time outside PITR window" notification
  and ends the cycle at a fail state. The write is run again on \<open>Ssm.SdkClientException\<close>
  while attempts are left, and any other error of it goes to Notify-And-Fail. Whatever the
  tasks report, no export is started anywhere in that cycle.
\<close>

theorem C5_pitr_gap:
  "\<exists>M. deployStepFunction d = Inr M \<and>
     (\<forall>pre as ob post.
        last (run (graph M) pre (At (startAt M) [])) = At nb_isEarliestRestoreDateTimeValidChoice as \<and>
        cb_earliestRestoreDateTimeIsGreaterThanExportStartTime \<in> set (holds ob) \<longrightarrow>
        run (graph M) [ob, ok, ok, ok] (At nb_isEarliestRestoreDateTimeValidChoice as) =
          [At nb_isEarliestRestoreDateTimeValidChoice as,
           At nb_setWorkflowStateParameterToPitrGap [],
           At nb_notifyOnIncrementalExportStartTimeOutsidePitrWindow [],
           At nb_incrementalExportStartTimeOutsidePitrWindowFail [],
           Ended nb_incrementalExportStartTimeOutsidePitrWindowFail] \<and>
        nb_executeIncrementalExport \<notin>
          set (visited (run (graph M) (pre @ ob # post) (At (startAt M) []))) \<and>
        nb_executeFullExport \<notin>
          set (visited (run (graph M) (pre @ ob # post) (At (startAt M) [])))) \<and>
     kind nb_incrementalExportStartTimeOutsidePitrWindowFail = Fail \<and>
     (\<forall>as e. on_error (graph M) nb_setWorkflowStateParameterToPitrGap as e =
        (if e = ''Ssm.SdkClientException'' \<and> attempts_of as 0 < SDK_EXCEPTION_RETRY_ATTEMPTS d
         then At nb_setWorkflowStateParameterToPitrGap (bump as 0)
         else At nb_notifyOnTaskFailed []))"
proof -
  have r: "cb_earliestRestoreDateTimeIsGreaterThanExportStartTime \<in> set (holds ob) \<Longrightarrow>
      run (workflow_graph d) [ob, ok, ok, ok] (At nb_isEarliestRestoreDateTimeValidChoice as) =
          [At nb_isEarliestRestoreDateTimeValidChoice as,
           At nb_setWorkflowStateParameterToPitrGap [],
           At nb_notifyOnIncrementalExportStartTimeOutsidePitrWindow [],
           At nb_incrementalExportStartTimeOutsidePitrWindowFail [],
           Ended nb_incrementalExportStartTimeOutsidePitrWindowFail]" for ob as
    by (simp add: step_isEarliestRestoreDateTimeValidChoice
        step_setWorkflowStateParameterToPitrGap step_notifyOnIncrementalExportStartTimeOutsidePitrWindow
        step_ends)
  show ?thesis
    apply (rule exI [of _ "\<lparr>startAt = nb_getParametersTask, graph = workflow_graph d\<rparr>"])
    apply (simp only: deployStepFunction_result graph_built machine.select_convs
        on_error_setWorkflowStateParameterToPitrGap kind.simps simp_thms)
    using r whole_cycle_pitr_gap [of d] by blast
qed

theorem C5_pitr_gap_witness:
  "\<exists>M. deployStepFunction example_defaults = Inr M \<and>
     last (run (graph M)
       [ok, ok, ok, ok, ok, finds [cb_pitrIsEnabled], ok, finds [cb_lastIncrementalExportTimeIsValid], ok, ok, ok]
       (At (startAt M) [])) = At nb_isEarliestRestoreDateTimeValidChoice [] \<and>
     cb_earliestRestoreDateTimeIsGreaterThanExportStartTime
       \<in> set (holds (finds [cb_earliestRestoreDateTimeIsGreaterThanExportStartTime])) \<and>
     run (graph M) [finds [cb_earliestRestoreDateTimeIsGreaterThanExportStartTime], ok, ok, ok]
        (At nb_isEarliestRestoreDateTimeValidChoice []) =
          [At nb_isEarliestRestoreDateTimeValidChoice [],
           At nb_setWorkflowStateParameterToPitrGap [],
           At nb_notifyOnIncrementalExportStartTimeOutsidePitrWindow [],
           At nb_incrementalExportStartTimeOutsidePitrWindowFail [],
           Ended nb_incrementalExportStartTimeOutsidePitrWindowFail] \<and>
     nb_executeIncrementalExport \<notin> set (visited (run (graph M)
       ([ok, ok, ok, ok, ok, finds [cb_pitrIsEnabled], ok, finds [cb_lastIncrementalExportTimeIsValid], ok, ok, ok]
         @ finds [cb_earliestRestoreDateTimeIsGreaterThanExportStartTime] # [ok, ok, ok])
       (At (startAt M) [])))"
proof -
  let ?pre = "[ok, ok, ok, ok, ok, finds [cb_pitrIsEnabled], ok, finds [cb_lastIncrementalExportTimeIsValid],
     ok, ok, ok]"
  let ?ob = "finds [cb_earliestRestoreDateTimeIsGreaterThanExportStartTime]"
  from C5_pitr_gap [of example_defaults] obtain M where
    m: "deployStepFunction example_defaults = Inr M"
    and c: "\<forall>pre as ob post.
        last (run (graph M) pre (At (startAt M) [])) = At nb_isEarliestRestoreDateTimeValidChoice as \<and>
        cb_earliestRestoreDateTimeIsGreaterThanExportStartTime \<in> set (holds ob) \<longrightarrow>
        run (graph M) [ob, ok, ok, ok] (At nb_isEarliestRestoreDateTimeValidChoice as) =
          [At nb_isEarliestRestoreDateTimeValidChoice as,
           At nb_setWorkflowStateParameterToPitrGap [],
           At nb_notifyOnIncrementalExportStartTimeOutsidePitrWindow [],
           At nb_incrementalExportStartTimeOutsidePitrWindowFail [],
           Ended nb_incrementalExportStartTimeOutsidePitrWindowFail] \<and>
        nb_executeIncrementalExport \<notin>
          set (visited (run (graph M) (pre @ ob # post) (At (startAt M) []))) \<and>
        nb_executeFullExport \<notin>
          set (visited (run (graph M) (pre @ ob # post) (At (startAt M) [])))"
    by blast
  have g: "graph M = workflow_graph example_defaults" "startAt M = nb_getParametersTask"
    using m deployStepFunction_result [of example_defaults] by auto
  have l: "last (run (graph M) ?pre (At (startAt M) [])) = At nb_isEarliestRestoreDateTimeValidChoice []"
    unfolding g run_to_the_pitr_check by simp
  have h: "cb_earliestRestoreDateTimeIsGreaterThanExportStartTime \<in> set (holds ?ob)" by simp
  from c l h have
    "run (graph M) [?ob, ok, ok, ok] (At nb_isEarliestRestoreDateTimeValidChoice []) =
          [At nb_isEarliestRestoreDateTimeValidChoice [],
           At nb_setWorkflowStateParameterToPitrGap [],
           At nb_notifyOnIncrementalExportStartTimeOutsidePitrWindow [],
           At nb_incrementalExportStartTimeOutsidePitrWindowFail [],
           Ended nb_incrementalExportStartTimeOutsidePitrWindowFail]"
    "nb_executeIncrementalExport \<notin> set (visited (run (graph M) (?pre @ ?ob # [ok, ok, ok]) (At (startAt M) [])))"
    by blast+
  then show ?thesis using m l h by (intro exI [of _ M]) (simp only: simp_thms)
qed

subsection \<open>The window-end check (C6)\<close>




subsection \<open>Missing parameters in the full export path (C7)\<close>

text \<open>
  Claim C7. In the full export path the writes of WorkflowAction = RUN and of
  WorkflowState = NORMAL, when they report \<open>Ssm.ParameterNotFoundException\<close>, go on to the
  step that clears WorkflowInitiated, and the deletion of LastIncrementalExportTime, when
  it reports it, goes on to the poll of the full export. Every other error of these
  steps goes to Notify-And-Fail, \<open>Ssm.SdkClientException\<close> after its retries are used up.
\<close>

theorem C7_parameter_not_found:
  "\<exists>M. deployStepFunction d = Inr M \<and>
     on_error (graph M) nb_setWorkflowActionParameterToRun as e =
       (if e = ''Ssm.ParameterNotFoundException'' then At nb_setEmptyWorkflowInitiatedParameter []
        else if e = ''Ssm.SdkClientException'' \<and> attempts_of as 0 < SDK_EXCEPTION_RETRY_ATTEMPTS d
          then At nb_setWorkflowActionParameterToRun (bump as 0)
        else At nb_notifyOnTaskFailed []) \<and>
     on_error (graph M) nb_setWorkflowStateParameterToNormal as e =
       (if e = ''Ssm.ParameterNotFoundException'' then At nb_setEmptyWorkflowInitiatedParameter []
        else if e = ''Ssm.SdkClientException'' \<and> attempts_of as 0 < SDK_EXCEPTION_RETRY_ATTEMPTS d
          then At nb_setWorkflowStateParameterToNormal (bump as 0)
        else At nb_notifyOnTaskFailed []) \<and>
     on_error (graph M) nb_deleteLastIncrementalExportTimeParameter as e =
       (if e = ''Ssm.ParameterNotFoundException'' then At nb_describeFullExport []
        else if e = ''Ssm.SdkClientException'' \<and> attempts_of as 0 < SDK_EXCEPTION_RETRY_ATTEMPTS d
          then At nb_deleteLastIncrementalExportTimeParameter (bump as 0)
        else At nb_notifyOnTaskFailed []) \<and>
     step (graph M) ok nb_setWorkflowActionParameterToRun as = At nb_setWorkflowStateParameterToNormal [] \<and>
     step (graph M) ok nb_setWorkflowStateParameterToNormal as = At nb_setEmptyWorkflowInitiatedParameter [] \<and>
     step (graph M) ok nb_setEmptyWorkflowInitiatedParameter as =
       At nb_deleteLastIncrementalExportTimeParameter [] \<and>
     step (graph M) ok nb_deleteLastIncrementalExportTimeParameter as = At nb_describeFullExport []"
  by (rule exI [of _ "\<lparr>startAt = nb_getParametersTask, graph = workflow_graph d\<rparr>"])
     (simp only: deployStepFunction_result graph_built on_error_setWorkflowActionParameterToRun
        on_error_setWorkflowStateParameterToNormal on_error_deleteLastIncrementalExportTimeParameter
        step_full_export_writes simp_thms)

subsection \<open>The window size and the schedule (C8, C9)\<close>

lemma toSeconds_half: "0 \<le> k \<Longrightarrow> Duration_minutes_toSeconds (of_int k / 2) = Inr (of_int (30 * k))"
proof -
  assume k: "0 \<le> k"
  have v: "(of_int k :: rat) / 2 * 60000 / 1000 = of_int (30 * k)" by simp
  have nn: "\<not> (of_int k :: rat) / 2 < 0" using k by simp
  show ?thesis
    unfolding Duration_minutes_toSeconds_def Let_def v using nn by simp
qed

lemma init_ok:
  assumes "15 \<le> incrementalExportWindowSizeInMinutes c" "incrementalExportWindowSizeInMinutes c \<le> 1440"
  shows "init c d = Inr \<lparr>stateMachine = \<lparr>startAt = nb_getParametersTask, graph = workflow_graph d\<rparr>,
            schedule = \<lparr>maximumWindowInMinutes = 15,
                         rateMinutes = \<lfloor>incrementalExportWindowSizeInMinutes c / 3\<rfloor>,
                         maximumEventAgeInSeconds = of_int (30 * \<lfloor>incrementalExportWindowSizeInMinutes c / 3\<rfloor>),
                         maximumRetryAttempts = 1\<rparr>\<rparr>"
proof -
  have "0 \<le> \<lfloor>incrementalExportWindowSizeInMinutes c / 3\<rfloor>" using assms by simp
  from toSeconds_half [OF this] show ?thesis
    using assms by (simp add: init_def sanityChecks_def deployStepFunction_result Let_def)
qed

lemma init_rejects:
  "\<not> (15 \<le> incrementalExportWindowSizeInMinutes c \<and> incrementalExportWindowSizeInMinutes c \<le> 1440) \<Longrightarrow>
   init c d = Inl (Error ''incrementalExportWindowSizeInMinutes has to be between 15 minutes and 1,440 minutes (24h)'')"
  by (auto simp: init_def sanityChecks_def)

text \<open>
  Claim C8. The sanity check accepts a window size exactly when it lies between 15 and
  1440 minutes: 15 and 1440 pass, 14 and 1441 are refused with an error. \<open>init\<close> runs the
  check first, so a deployment comes to exist exactly for the window sizes in the range.
\<close>

theorem C8_window_size_validation:
  "(sanityChecks c = Inr ()) =
     (15 \<le> incrementalExportWindowSizeInMinutes c \<and> incrementalExportWindowSizeInMinutes c \<le> 1440)
   \<and> sanityChecks (c\<lparr>incrementalExportWindowSizeInMinutes := 15\<rparr>) = Inr ()
   \<and> sanityChecks (c\<lparr>incrementalExportWindowSizeInMinutes := 1440\<rparr>) = Inr ()
   \<and> (\<exists>msg. sanityChecks (c\<lparr>incrementalExportWindowSizeInMinutes := 14\<rparr>) = Inl (Error msg))
   \<and> (\<exists>msg. sanityChecks (c\<lparr>incrementalExportWindowSizeInMinutes := 1441\<rparr>) = Inl (Error msg))
   \<and> (\<exists>dep. init c d = Inr dep) =
       (15 \<le> incrementalExportWindowSizeInMinutes c \<and> incrementalExportWindowSizeInMinutes c \<le> 1440)"
proof -
  have a: "(sanityChecks c = Inr ()) =
     (15 \<le> incrementalExportWindowSizeInMinutes c \<and> incrementalExportWindowSizeInMinutes c \<le> 1440)"
    by (auto simp: sanityChecks_def)
  have b: "(\<exists>dep. init c d = Inr dep) =
       (15 \<le> incrementalExportWindowSizeInMinutes c \<and> incrementalExportWindowSizeInMinutes c \<le> 1440)"
  proof (cases "15 \<le> incrementalExportWindowSizeInMinutes c \<and> incrementalExportWindowSizeInMinutes c \<le> 1440")
    case True
    then show ?thesis using init_ok [of c d] by simp
  next
    case False
    then show ?thesis using init_rejects [of c d] by simp
  qed
  show ?thesis using a b by (simp add: sanityChecks_def)
qed

text \<open>
  Claim C9. For every configuration that passes the sanity check, \<open>init\<close> creates the
  schedule with a rate of \<open>floor (windowSize / 3)\<close> minutes, a flexible window of 15
  minutes, at most 1 retry attempt and a maximum event age of half the rate, in seconds.
\<close>

theorem C9_schedule:
  "sanityChecks c = Inr () \<Longrightarrow>
   \<exists>dep. init c d = Inr dep
     \<and> rateMinutes (schedule dep) = \<lfloor>incrementalExportWindowSizeInMinutes c / 3\<rfloor>
     \<and> maximumWindowInMinutes (schedule dep) = 15
     \<and> maximumRetryAttempts (schedule dep) = 1
     \<and> maximumEventAgeInSeconds (schedule dep) = of_int (rateMinutes (schedule dep)) / 2 * 60"
proof -
  assume "sanityChecks c = Inr ()"
  then have r: "15 \<le> incrementalExportWindowSizeInMinutes c" "incrementalExportWindowSizeInMinutes c \<le> 1440"
    by (auto simp: sanityChecks_def split: if_splits)
  show ?thesis using init_ok [OF r, of d] by simp
qed

theorem C9_schedule_witness:
  "sanityChecks example_configuration = Inr () \<and>
   (\<exists>dep. init example_configuration example_defaults = Inr dep
     \<and> rateMinutes (schedule dep) = 6
     \<and> maximumWindowInMinutes (schedule dep) = 15
     \<and> maximumRetryAttempts (schedule dep) = 1
     \<and> maximumEventAgeInSeconds (schedule dep) = 180)"
proof -
  have h: "sanityChecks example_configuration = Inr ()"
    by (simp add: sanityChecks_def example_configuration_def)
  have f: "\<lfloor>incrementalExportWindowSizeInMinutes example_configuration / 3\<rfloor> = 6"
    by (simp add: example_configuration_def floor_eq_iff)
  from C9_schedule [OF h, of example_defaults] obtain dep where
      "init example_configuration example_defaults = Inr dep"
      "rateMinutes (schedule dep) = \<lfloor>incrementalExportWindowSizeInMinutes example_configuration / 3\<rfloor>"
      "maximumWindowInMinutes (schedule dep) = 15"
      "maximumRetryAttempts (schedule dep) = 1"
      "maximumEventAgeInSeconds (schedule dep) = of_int (rateMinutes (schedule dep)) / 2 * 60"
    by blast
  then show ?thesis using h f by auto
qed

subsection \<open>One export stack for each source table (C10)\<close>

lemma split_nonempty: "split sep s \<noteq> []"
  by (induction s) (auto split: list.splits)

lemma split_no_sep: "sep \<notin> set s \<Longrightarrow> split sep s = [s]"
  by (induction s) auto

lemma split_sep_tl: "sep \<in> set s \<Longrightarrow> tl (split sep s) \<noteq> []"
  by (induction s) (auto simp: split_nonempty split: list.splits)

lemma last_split: "last (split sep s) = rev (takeWhile (\<lambda>x. x \<noteq> sep) (rev s))"
proof (induction s)
  case Nil
  then show ?case by simp
next
  case (Cons c cs)
  show ?case
  proof (cases "sep \<in> set cs")
    case True
    then have "takeWhile (\<lambda>x. x \<noteq> sep) (rev cs @ [c]) = takeWhile (\<lambda>x. x \<noteq> sep) (rev cs)"
      by (intro takeWhile_append1 [of sep]) auto
    moreover have "last (split sep (c # cs)) = last (split sep cs)"
      using split_sep_tl [OF True] split_nonempty [of sep cs] by (auto split: list.splits)
    ultimately show ?thesis using Cons.IH by simp
  next
    case False
    then have "takeWhile (\<lambda>x. x \<noteq> sep) (rev cs @ [c]) = rev cs @ takeWhile (\<lambda>x. x \<noteq> sep) [c]"
      by (intro takeWhile_append2) auto
    then show ?thesis using split_no_sep [OF False] by auto
  qed
qed

lemma shortTableName_eq:
  "shortTableName t = Inr (toLowerCase (if length t > 10 then last_hyphen_segment t else t))"
proof -
  obtain p ps where r: "rev (split CHR ''-'' t) = p # ps"
    using split_nonempty [of "CHR ''-''" t] by (cases "rev (split CHR ''-'' t)") auto
  then have "p = last (split CHR ''-'' t)"
    by (metis last_rev list.sel(1) rev_rev_ident hd_rev)
  then show ?thesis using r by (simp add: shortTableName_def last_hyphen_segment_def last_split)
qed

lemma new_export_stack_eq:
  "new_export_stack children c t =
     (if t \<in> set children \<or> t @ ''.NestedStack'' \<in> set children
      then Inl (Error ''There is already a Construct with name'')
      else Inr (\<lparr>stack_id = t,
          configuration = c\<lparr>deploymentAlias := deploymentAlias c @ ''-'' @
             toLowerCase (if length t > 10 then last_hyphen_segment t else t),
           sourceDynamoDbTableName := t,
           dataExportBucketPrefix := dataExportBucketPrefix c @ ''/'' @ t\<rparr>\<rparr>,
         children @ [t, t @ ''.NestedStack'']))"
  by (simp add: new_export_stack_def addChild_def shortTableName_eq)

lemma nested_stack_ids_Cons:
  "nested_stack_ids (t # ts) = t # (t @ ''.NestedStack'') # nested_stack_ids ts"
  by (simp add: nested_stack_ids_def)

lemma forEach_new_export_stack:
  "distinct (nested_stack_ids ts) \<Longrightarrow> set (nested_stack_ids ts) \<inter> set children = {} \<Longrightarrow>
   \<exists>stacks. forEach (\<lambda>ids. new_export_stack ids c) ts children = Inr stacks \<and> map stack_id stacks = ts \<and>
     (\<forall>s \<in> set stacks.
        configuration s = c\<lparr>deploymentAlias := deploymentAlias c @ ''-'' @
             toLowerCase (if length (stack_id s) > 10 then last_hyphen_segment (stack_id s) else stack_id s),
           sourceDynamoDbTableName := stack_id s,
           dataExportBucketPrefix := dataExportBucketPrefix c @ ''/'' @ stack_id s\<rparr>)"
proof (induction ts arbitrary: children)
  case Nil
  then show ?case by simp
next
  case (Cons t ts)
  have d: "distinct (nested_stack_ids ts)"
      "set (nested_stack_ids ts) \<inter> set (children @ [t, t @ ''.NestedStack'']) = {}"
      "\<not> (t \<in> set children \<or> t @ ''.NestedStack'' \<in> set children)"
    using Cons.prems by (auto simp: nested_stack_ids_Cons)
  from Cons.IH [OF d(1) d(2)] obtain stacks where
     "forEach (\<lambda>ids. new_export_stack ids c) ts (children @ [t, t @ ''.NestedStack'']) = Inr stacks"
     "map stack_id stacks = ts"
     "\<forall>s \<in> set stacks.
        configuration s = c\<lparr>deploymentAlias := deploymentAlias c @ ''-'' @
             toLowerCase (if length (stack_id s) > 10 then last_hyphen_segment (stack_id s) else stack_id s),
           sourceDynamoDbTableName := stack_id s,
           dataExportBucketPrefix := dataExportBucketPrefix c @ ''/'' @ stack_id s\<rparr>"
    by blast
  then show ?case using d(3)
    by (simp add: new_export_stack_eq [of children c t])
qed

lemma forEach_new_export_stack_throws:
  "\<not> (distinct (nested_stack_ids ts) \<and> set (nested_stack_ids ts) \<inter> set children = {}) \<Longrightarrow>
   \<exists>msg. forEach (\<lambda>ids. new_export_stack ids c) ts children = Inl (Error msg)"
proof (induction ts arbitrary: children)
  case Nil
  then show ?case by (simp add: nested_stack_ids_def)
next
  case (Cons t ts)
  show ?case
  proof (cases "t \<in> set children \<or> t @ ''.NestedStack'' \<in> set children")
    case True
    then show ?thesis by (simp add: new_export_stack_eq [of children c t])
  next
    case False
    then have "\<not> (distinct (nested_stack_ids ts) \<and>
        set (nested_stack_ids ts) \<inter> set (children @ [t, t @ ''.NestedStack'']) = {})"
      using Cons.prems by (auto simp: nested_stack_ids_Cons)
    from Cons.IH [OF this] obtain msg where
      "forEach (\<lambda>ids. new_export_stack ids c) ts (children @ [t, t @ ''.NestedStack'']) = Inl (Error msg)"
      by blast
    then show ?thesis using False by (simp add: new_export_stack_eq [of children c t])
  qed
qed

lemma dropWhile_all_iff: "(\<forall>x \<in> set (dropWhile P xs). P x) = (\<forall>x \<in> set xs. P x)"
proof
  assume a: "\<forall>x \<in> set (dropWhile P xs). P x"
  show "\<forall>x \<in> set xs. P x"
  proof (cases "dropWhile P xs")
    case Nil
    then show ?thesis by (simp add: dropWhile_eq_Nil_conv)
  next
    case (Cons y ys)
    then have "\<not> P y" using hd_dropWhile [of P xs] by (metis list.sel(1) list.distinct(1))
    moreover have "P y" using a Cons by simp
    ultimately show ?thesis by simp
  qed
next
  assume "\<forall>x \<in> set xs. P x"
  then show "\<forall>x \<in> set (dropWhile P xs). P x" by (meson set_dropWhileD)
qed

lemma trim_nonempty_iff: "(trim t \<noteq> []) = (\<exists>ch \<in> set t. \<not> isWhiteSpace ch)"
  by (simp add: trim_def dropWhile_eq_Nil_conv dropWhile_all_iff)

lemma kept_entries:
  "filter (\<lambda>tableName. length (trim tableName) > 0) xs = filter (\<lambda>t. \<exists>ch \<in> set t. \<not> isWhiteSpace ch) xs"
  by (simp add: trim_nonempty_iff)

text \<open>
  Claim C10, as stated: for every configured comma-separated list the entry point
  creates exactly one nested export stack for each entry whose trimmed name is not empty.

  This fails for a list that names a table twice: the table name is the construct id of
  the stack, and the second constructor call throws.
\<close>

theorem C10_counterexample:
  "is_ascii ''Orders,Orders'' \<and> CHR ''/'' \<notin> set ''Orders,Orders'' \<and>
   export_stacks [] (example_configuration\<lparr>sourceDynamoDbTableName := ''Orders,Orders''\<rparr>) =
     Inl (Error ''There is already a Construct with name'')"
  by (simp add: is_ascii_def export_stacks_def new_export_stack_eq trim_def isWhiteSpace_def)

text \<open>
  Claim C10, amended: take a configured comma-separated list of ASCII table names without
  a slash, and call kept its entries that have a character other than white space. When
  the construct ids of the kept entries (each entry, and the entry followed by
  \<open>.NestedStack\<close>) are pairwise distinct and are not ids that the shared stack already
  holds, the entry point creates exactly one nested export stack for each kept entry, in
  the order of the list and under the entry as it stands (untrimmed). The deployment
  alias of a stack is the shared alias, a hyphen and, in lower case, the last
  hyphen-separated segment of the table name when the name has more than 10 characters,
  else the whole name; its bucket prefix is the shared prefix, a slash and the table name;
  the rest of the configuration is passed on. Otherwise, so when an entry is repeated,
  the entry point throws.
\<close>

theorem C10_export_stacks:
  "is_ascii (sourceDynamoDbTableName c) \<Longrightarrow> CHR ''/'' \<notin> set (sourceDynamoDbTableName c) \<Longrightarrow>
   (if distinct (nested_stack_ids
          (filter (\<lambda>t. \<exists>ch \<in> set t. \<not> isWhiteSpace ch) (split CHR '','' (sourceDynamoDbTableName c))))
       \<and> set (nested_stack_ids
          (filter (\<lambda>t. \<exists>ch \<in> set t. \<not> isWhiteSpace ch) (split CHR '','' (sourceDynamoDbTableName c))))
           \<inter> set children = {}
    then \<exists>stacks. export_stacks children c = Inr stacks \<and>
       map stack_id stacks =
         filter (\<lambda>t. \<exists>ch \<in> set t. \<not> isWhiteSpace ch) (split CHR '','' (sourceDynamoDbTableName c)) \<and>
       (\<forall>s \<in> set stacks.
          configuration s = c\<lparr>deploymentAlias := deploymentAlias c @ ''-'' @
               toLowerCase (if length (stack_id s) > 10 then last_hyphen_segment (stack_id s) else stack_id s),
             sourceDynamoDbTableName := stack_id s,
             dataExportBucketPrefix := dataExportBucketPrefix c @ ''/'' @ stack_id s\<rparr>)
    else \<exists>msg. export_stacks children c = Inl (Error msg))"
proof -
  let ?K = "filter (\<lambda>t. \<exists>ch \<in> set t. \<not> isWhiteSpace ch) (split CHR '','' (sourceDynamoDbTableName c))"
  have e: "export_stacks children c = forEach (\<lambda>ids. new_export_stack ids c) ?K children"
    by (simp only: export_stacks_def kept_entries)
  show ?thesis
  proof (cases "distinct (nested_stack_ids ?K) \<and> set (nested_stack_ids ?K) \<inter> set children = {}")
    case True
    then have d: "distinct (nested_stack_ids ?K)" and j: "set (nested_stack_ids ?K) \<inter> set children = {}"
      by simp_all
    from forEach_new_export_stack [OF d j, of c] show ?thesis
      unfolding e if_P [OF True] .
  next
    case False
    from forEach_new_export_stack_throws [OF False, of c] show ?thesis
      unfolding e if_not_P [OF False] .
  qed
qed

lemma example_entries:
  "filter (\<lambda>t. \<exists>ch \<in> set t. \<not> isWhiteSpace ch) (split CHR '','' ''Orders, ,prod-Users-Table'') =
     [''Orders'', ''prod-Users-Table'']"
  by (simp add: isWhiteSpace_def)

lemma example_segment: "last_hyphen_segment ''prod-Users-Table'' = ''Table''"
  by (simp add: last_hyphen_segment_def)

lemma example_lower: "toLowerCase ''Table'' = ''table''" "toLowerCase ''Orders'' = ''orders''"
  by (simp_all add: toLowerCase_def)

lemma example_ascii: "is_ascii (sourceDynamoDbTableName example_configuration)"
  by (simp add: is_ascii_def example_configuration_def)

lemma example_no_slash: "CHR ''/'' \<notin> set (sourceDynamoDbTableName example_configuration)"
  by (simp add: example_configuration_def)

theorem C10_export_stacks_witness:
  "is_ascii (sourceDynamoDbTableName example_configuration) \<and>
   CHR ''/'' \<notin> set (sourceDynamoDbTableName example_configuration) \<and>
   export_stacks [''step-function-trigger-role''] example_configuration =
     Inr [\<lparr>stack_id = ''Orders'',
           configuration = example_configuration\<lparr>deploymentAlias := ''dev-orders'',
             sourceDynamoDbTableName := ''Orders'', dataExportBucketPrefix := ''exports/Orders''\<rparr>\<rparr>,
          \<lparr>stack_id = ''prod-Users-Table'',
           configuration = example_configuration\<lparr>deploymentAlias := ''dev-table'',
             sourceDynamoDbTableName := ''prod-Users-Table'',
             dataExportBucketPrefix := ''exports/prod-Users-Table''\<rparr>\<rparr>]"
proof -
  have k: "filter (\<lambda>t. \<exists>ch \<in> set t. \<not> isWhiteSpace ch)
      (split CHR '','' (sourceDynamoDbTableName example_configuration)) = [''Orders'', ''prod-Users-Table'']"
    using example_entries by (simp add: example_configuration_def)
  have dj: "distinct (nested_stack_ids [''Orders'', ''prod-Users-Table'']) \<and>
      set (nested_stack_ids [''Orders'', ''prod-Users-Table'']) \<inter> set [''step-function-trigger-role''] = {}"
    by (simp add: nested_stack_ids_def)
  from C10_export_stacks [OF example_ascii example_no_slash, of "[''step-function-trigger-role'']"]
  obtain stacks where
    s: "export_stacks [''step-function-trigger-role''] example_configuration = Inr stacks"
    and ids: "map stack_id stacks = [''Orders'', ''prod-Users-Table'']"
    and cfg: "\<forall>s \<in> set stacks.
        configuration s = example_configuration\<lparr>deploymentAlias := deploymentAlias example_configuration @ ''-'' @
             toLowerCase (if length (stack_id s) > 10 then last_hyphen_segment (stack_id s) else stack_id s),
           sourceDynamoDbTableName := stack_id s,
           dataExportBucketPrefix := dataExportBucketPrefix example_configuration @ ''/'' @ stack_id s\<rparr>"
    unfolding k if_P [OF dj] by (elim exE conjE) (rule that)
  from ids obtain a b where ab: "stacks = [a, b]" "stack_id a = ''Orders''" "stack_id b = ''prod-Users-Table''"
    by auto
  have "configuration a = example_configuration\<lparr>deploymentAlias := ''dev-orders'',
             sourceDynamoDbTableName := ''Orders'', dataExportBucketPrefix := ''exports/Orders''\<rparr>"
    using cfg ab example_lower by (simp add: example_configuration_def)
  moreover have "configuration b = example_configuration\<lparr>deploymentAlias := ''dev-table'',
             sourceDynamoDbTableName := ''prod-Users-Table'',
             dataExportBucketPrefix := ''exports/prod-Users-Table''\<rparr>"
    using cfg ab example_lower example_segment by (simp add: example_configuration_def)
  ultimately show ?thesis using s ab example_ascii example_no_slash by (cases a; cases b) simp
qed

end
